theory Spec2Isabelle
  imports Complex_Main "HOL-Library.Multiset"
begin

text \<open>
  The repository holds several versions of one Express/SQLite backend. Three of them are
  modelled here, each route as a function from what the request carries, what the world
  outside the program supplies (clock, random values, the answers of the storage engine and
  of the Roblox services) and the database before, to the response and the database after:
  \<^item> server.js, with the \<open>combat_points\<close> schema, admin keys and sessions;
  \<^item> its copy with the Roblox verification routes that append to a log of codes;
  \<^item> the points/valor server, with verification codes keyed by \<open>roblox_id\<close>, and its
    predecessor, which shares its \<open>users\<close> table.
\<close>

section \<open>Values crossing the HTTP and SQL boundaries\<close>

text \<open>
  The handlers read scalar fields out of a parsed JSON body or out of the request path and
  hand them to the SQLite driver as statement parameters. \<open>jsval\<close> is the scalar fragment of
  JavaScript values that can arrive this way; \<open>JNull\<close> stands for \<open>null\<close>, \<open>undefined\<close> and an
  absent field alike (all three are falsy and all three bind as SQL NULL). Numbers are the
  integral ones. The elements of the attendee array, which may also be objects or arrays,
  are the \<open>entry\<close> values introduced with the routes that read them. Timestamps, which the
  code keeps as ISO-8601 text produced by \<open>toISOString()\<close> and reads back with
  \<open>new Date(...)\<close>, are the integers of milliseconds that text denotes.
\<close>

datatype jsval = JNull | JBool bool | JNum int | JStr string

fun truthy :: "jsval \<Rightarrow> bool" where
  "truthy JNull = False"
| "truthy (JBool b) = b"
| "truthy (JNum n) = (n \<noteq> 0)"
| "truthy (JStr s) = (s \<noteq> [])"

subsection \<open>Decimal numerals\<close>

definition digit_char :: "nat \<Rightarrow> char" where
  "digit_char d = char_of (48 + d)"

definition is_digit :: "char \<Rightarrow> bool" where
  "is_digit c \<longleftrightarrow> 48 \<le> (of_char c :: nat) \<and> (of_char c :: nat) \<le> 57"

definition digit_val :: "char \<Rightarrow> nat" where
  "digit_val c = (of_char c :: nat) - 48"

function show_nat :: "nat \<Rightarrow> string" where
  "show_nat n = (if n < 10 then [digit_char n] else show_nat (n div 10) @ [digit_char (n mod 10)])"
  by pat_completeness auto
termination
  by (relation "measure (\<lambda>n. n)") auto

declare show_nat.simps [simp del]

definition show_int :: "int \<Rightarrow> string" where
  "show_int i = (if i < 0 then CHR ''-'' # show_nat (nat (- i)) else show_nat (nat i))"

definition digits_value :: "string \<Rightarrow> int" where
  "digits_value ds = foldl (\<lambda>acc c. 10 * acc + int (digit_val c)) 0 ds"

text \<open>
  The text-to-number conversion SQLite applies when a text operand meets a column of INTEGER
  affinity. A text is numeric when it consists of optional white space, an optional sign,
  digits with an optional decimal point among them (at least one digit in all), an optional
  exponent (\<open>e\<close> or \<open>E\<close>, an optional sign, at least one digit) and optional white space.
  \<open>sql_numeric\<close> gives the integer such a text denotes when it denotes one that a 64-bit
  column can hold: \<open>'2'\<close>, \<open>' 2'\<close>, \<open>'+2'\<close>, \<open>'2.0'\<close>, \<open>'02'\<close> and \<open>'20e-1'\<close> all give 2, while
  \<open>'2.5'\<close>, \<open>'0x2'\<close> and \<open>'2abc'\<close> give nothing. The value is computed exactly; the engine goes
  through a floating-point number and so also reads a numeral with a fraction or an
  exponent as an integer when it lies within the rounding error of one
  (\<open>'1.9999999999999999999'\<close> as 2).
\<close>

definition is_space :: "char \<Rightarrow> bool" where
  "is_space c \<longleftrightarrow> (of_char c :: nat) = 32 \<or> (9 \<le> (of_char c :: nat) \<and> (of_char c :: nat) \<le> 13)"

fun take_sign :: "string \<Rightarrow> bool \<times> string" where
  "take_sign [] = (False, [])"
| "take_sign (c # cs) =
     (if c = CHR ''-'' then (True, cs) else if c = CHR ''+'' then (False, cs) else (False, c # cs))"

text \<open>The digits after a decimal point, and the rest.\<close>

fun take_fraction :: "string \<Rightarrow> string \<times> string" where
  "take_fraction [] = ([], [])"
| "take_fraction (c # cs) =
     (if c = CHR ''.'' then (takeWhile is_digit cs, dropWhile is_digit cs) else ([], c # cs))"

text \<open>The exponent and the rest; \<open>None\<close> when the letter is not followed by a digit.\<close>

fun take_exponent :: "string \<Rightarrow> (int \<times> string) option" where
  "take_exponent [] = Some (0, [])"
| "take_exponent (c # cs) =
     (if c = CHR ''e'' \<or> c = CHR ''E'' then
        (let (neg, ds) = take_sign cs;
             e = digits_value (takeWhile is_digit ds)
         in if takeWhile is_digit ds = [] then None
            else Some (if neg then - e else e, dropWhile is_digit ds))
      else Some (0, c # cs))"

text \<open>\<open>m\<close> times ten to the \<open>k\<close>, when that is an integer.\<close>

definition scale :: "int \<Rightarrow> int \<Rightarrow> int option" where
  "scale m k =
     (if 0 \<le> k then Some (m * 10 ^ nat k)
      else if m mod 10 ^ nat (- k) = 0 then Some (m div 10 ^ nat (- k))
      else None)"

definition in_int64 :: "int \<Rightarrow> bool" where
  "in_int64 n \<longleftrightarrow> - 9223372036854775808 \<le> n \<and> n \<le> 9223372036854775807"

definition sql_numeric :: "string \<Rightarrow> int option" where
  "sql_numeric s =
     (let (neg, s1) = take_sign (dropWhile is_space s);
          ip = takeWhile is_digit s1;
          (fp, s2) = take_fraction (dropWhile is_digit s1)
      in if ip @ fp = [] then None
         else (case take_exponent s2 of
                 None \<Rightarrow> None
               | Some (e, s3) \<Rightarrow>
                   if dropWhile is_space s3 = [] then
                     (case scale (digits_value (ip @ fp)) (e - int (length fp)) of
                        None \<Rightarrow> None
                      | Some n \<Rightarrow>
                          if in_int64 (if neg then - n else n)
                          then Some (if neg then - n else n) else None)
                   else None))"

subsection \<open>Statement parameters and column comparison\<close>

text \<open>
  What the driver hands to the engine for a \<open>?\<close> placeholder: NULL, an INTEGER, a REAL or a
  TEXT. \<open>SqlReal n\<close> is the REAL whose value is the integer \<open>n\<close>.
\<close>

datatype sqlval = SqlNull | SqlInt int | SqlReal int | SqlText string

text \<open>
  How the driver binds a JavaScript value: a number is bound as an INTEGER when it is a
  32-bit integer and as a REAL otherwise.
\<close>

definition is_int32 :: "int \<Rightarrow> bool" where
  "is_int32 n \<longleftrightarrow> - 2147483648 \<le> n \<and> n \<le> 2147483647"

fun bind :: "jsval \<Rightarrow> sqlval" where
  "bind JNull = SqlNull"
| "bind (JBool b) = SqlInt (if b then 1 else 0)"
| "bind (JNum n) = (if is_int32 n then SqlInt n else SqlReal n)"
| "bind (JStr s) = SqlText s"

text \<open>\<open>String(v)\<close>, \<open>v.toString()\<close> and template-literal interpolation.\<close>

fun js_to_string :: "jsval \<Rightarrow> string" where
  "js_to_string JNull = ''null''"
| "js_to_string (JBool b) = (if b then ''true'' else ''false'')"
| "js_to_string (JNum n) = show_int n"
| "js_to_string (JStr s) = s"

text \<open>
  The text of a REAL with an integral value, as the engine writes it into a TEXT column:
  the digits followed by \<open>.0\<close>. From the magnitude \<open>10^15\<close> on the engine uses exponent
  notation with fifteen significant digits, and JavaScript does so from \<open>10^21\<close> on;
  \<open>plain\<close> holds of the values below the former bound, whose texts are given exactly.
\<close>

definition real_text :: "int \<Rightarrow> string" where
  "real_text n = show_int n @ ''.0''"

definition plain :: "jsval \<Rightarrow> bool" where
  "plain v = (case v of JNum n \<Rightarrow> \<bar>n\<bar> < 10 ^ 15 | _ \<Rightarrow> True)"

text \<open>
  \<open>col = ?\<close> for a TEXT column: the parameter takes TEXT affinity, so a number is compared
  through its text. NULL equals nothing.
\<close>

fun text_col_eq :: "string option \<Rightarrow> sqlval \<Rightarrow> bool" where
  "text_col_eq None p = False"
| "text_col_eq (Some s) SqlNull = False"
| "text_col_eq (Some s) (SqlInt n) = (s = show_int n)"
| "text_col_eq (Some s) (SqlReal n) = (s = real_text n)"
| "text_col_eq (Some s) (SqlText t) = (s = t)"

text \<open>
  \<open>col = ?\<close> for an INTEGER PRIMARY KEY column: a number is compared by value, and a text
  parameter takes NUMERIC affinity and matches when the engine reads it as the integer.
  The engine's reading of a text is the argument \<open>cast\<close>, so that what is proved of a lookup
  holds for every spelling the engine accepts; \<open>sql_numeric\<close> is the instance the examples
  are evaluated with.
\<close>

fun int_col_eq :: "(string \<Rightarrow> int option) \<Rightarrow> int \<Rightarrow> sqlval \<Rightarrow> bool" where
  "int_col_eq cast v SqlNull = False"
| "int_col_eq cast v (SqlInt n) = (v = n)"
| "int_col_eq cast v (SqlReal n) = (v = n)"
| "int_col_eq cast v (SqlText t) = (cast t = Some v)"

text \<open>What a TEXT column stores for a bound parameter.\<close>

fun store_text :: "sqlval \<Rightarrow> string option" where
  "store_text SqlNull = None"
| "store_text (SqlInt n) = Some (show_int n)"
| "store_text (SqlReal n) = Some (real_text n)"
| "store_text (SqlText t) = Some t"

text \<open>
  The driver calls every callback with \<open>(err, row)\<close>: either an error and no row, or no
  error and the row (absent when the query matched nothing).
\<close>

datatype 'a db_result = DbErr | DbOk 'a

subsection \<open>HTTP responses\<close>

type_synonym jsobj = "(string \<times> jsval) list"

record response =
  status :: nat
  body :: jsobj

definition json :: "jsobj \<Rightarrow> response" where
  "json b = \<lparr>status = 200, body = b\<rparr>"

definition status_json :: "nat \<Rightarrow> jsobj \<Rightarrow> response" where
  "status_json c b = \<lparr>status = c, body = b\<rparr>"

definition error_json :: "nat \<Rightarrow> string \<Rightarrow> response" where
  "error_json c msg = status_json c [(''error'', JStr msg)]"

text \<open>
  The answer Express gives when an exception leaves a route handler: status 500 with an
  error page that is not JSON, of which only the status is kept.
\<close>

definition express_error :: response where
  "express_error = \<lparr>status = 500, body = []\<rparr>"

section \<open>The tables of server.js\<close>

text \<open>
  One record per table, the columns keeping their names behind a prefix for the table
  (\<open>u_\<close> users, \<open>t_\<close> trainings, \<open>ta_\<close> training_attendees, \<open>ak_\<close> admin_keys, \<open>vc_\<close>
  verification_codes). A table is the list of its rows in rowid order. A TEXT column that
  may hold NULL is a \<open>string option\<close>. The copy of server.js that adds the Roblox
  verification routes (the append-log variant) has the same tables plus
  \<open>verification_codes\<close>; both run on this state.
\<close>

record user =
  u_id :: int
  u_roblox_id :: "string option"
  u_username :: "string option"
  u_display_name :: "string option"
  u_rank :: "string option"
  u_combat_points :: int
  u_created_at :: int

record training =
  t_id :: int
  t_type :: "string option"
  t_date :: "string option"
  t_host_id :: "string option"

record attendee =
  ta_id :: int
  ta_training_id :: sqlval
  ta_attendee_roblox_id :: "string option"

record admin_key =
  ak_id :: int
  ak_key :: string
  ak_created_at :: int
  ak_expires_at :: int
  ak_used :: int

record vcode =
  vc_id :: int
  vc_roblox_id :: sqlval
  vc_code :: string
  vc_created_at :: int

record session =
  s_key :: jsval
  s_createdAt :: int

record server =
  users :: "user list"
  trainings :: "training list"
  training_attendees :: "attendee list"
  admin_keys :: "admin_key list"
  verification_codes :: "vcode list"
  ADMIN_SESSIONS :: "string \<rightharpoonup> session"

text \<open>
  The rowid an AUTOINCREMENT table gives the next inserted row. The tables it is used for
  are only ever extended by plain INSERT, so the largest rowid that ever existed is the
  largest one present.
\<close>

definition next_rowid :: "int list \<Rightarrow> int" where
  "next_rowid ids = foldr max ids 0 + 1"

text \<open>
  A column of INTEGER affinity that is not a key (\<open>training_attendees.training_id\<close>,
  \<open>verification_codes.roblox_id\<close>) stores a REAL with an integral value and a text that
  denotes an integer as that integer, and any other text as it is; \<open>col = ?\<close> brings the
  parameter to the same form before comparing. (A numeric text that denotes no integer is
  kept as the text here, where the engine keeps its value.)
\<close>

fun int_affinity :: "sqlval \<Rightarrow> sqlval" where
  "int_affinity (SqlText t) = (case sql_numeric t of Some n \<Rightarrow> SqlInt n | None \<Rightarrow> SqlText t)"
| "int_affinity (SqlReal n) = SqlInt n"
| "int_affinity v = v"

definition affinity_col_eq :: "sqlval \<Rightarrow> sqlval \<Rightarrow> bool" where
  "affinity_col_eq stored p \<longleftrightarrow> stored \<noteq> SqlNull \<and> stored = int_affinity p"

section \<open>Admin keys and sessions (server.js)\<close>

text \<open>
  What one request takes from outside the program: the clock (\<open>new Date()\<close>), the value of
  \<open>randomUUID()\<close>, and whether the storage engine fails the SELECT or the write.
\<close>

record login_env =
  now :: int
  uuid :: string
  lookup_fails :: bool
  write_fails :: bool

text \<open>POST /api/admin-keys/create. The INSERT also fails on the UNIQUE constraint of \<open>key\<close>.\<close>

definition create_admin_key :: "login_env \<Rightarrow> server \<Rightarrow> response \<times> server" where
  "create_admin_key env st =
     (let key = uuid env;
          createdAt = now env;
          expiresAt = now env + 12 * 60 * 60 * 1000
      in if write_fails env \<or> key \<in> set (map ak_key (admin_keys st))
         then (error_json 500 ''Failed to create admin key'', st)
         else (json [(''key'', JStr key), (''expires_at'', JNum expiresAt)],
               st\<lparr>admin_keys := admin_keys st @
                 [\<lparr>ak_id = next_rowid (map ak_id (admin_keys st)), ak_key = key,
                   ak_created_at = createdAt, ak_expires_at = expiresAt, ak_used = 0\<rparr>]\<rparr>))"

text \<open>
  POST /api/admin/login is written in two pieces that the event loop runs at different
  times: the \<open>db.get\<close> that reads the row, and the callback that receives it.
\<close>

definition login_lookup :: "bool \<Rightarrow> server \<Rightarrow> jsval \<Rightarrow> admin_key option db_result" where
  "login_lookup fails st key =
     (if fails then DbErr
      else DbOk (find (\<lambda>r. text_col_eq (Some (ak_key r)) (bind key)) (admin_keys st)))"

text \<open>
  \<open>UPDATE admin_keys SET used = 1 WHERE id = ?\<close>, issued without a callback: a failure
  of the statement goes unnoticed and leaves the row as it was. The statement is queued
  before the response is sent, so its effect is taken at the point of issue.
\<close>

definition mark_used :: "bool \<Rightarrow> int \<Rightarrow> server \<Rightarrow> server" where
  "mark_used fails i st =
     (if fails then st
      else st\<lparr>admin_keys := map (\<lambda>r. if ak_id r = i then r\<lparr>ak_used := 1\<rparr> else r) (admin_keys st)\<rparr>)"

definition login_callback ::
  "login_env \<Rightarrow> jsval \<Rightarrow> admin_key option db_result \<Rightarrow> server \<Rightarrow> response \<times> server" where
  "login_callback env key res st =
     (case res of
        DbErr \<Rightarrow> (error_json 500 ''Database error'', st)
      | DbOk None \<Rightarrow> (error_json 401 ''Invalid key'', st)
      | DbOk (Some row) \<Rightarrow>
          if ak_expires_at row < now env then (error_json 401 ''Key expired'', st)
          else if ak_used row \<noteq> 0 then (error_json 401 ''Key already used'', st)
          else
            let st1 = mark_used (write_fails env) (ak_id row) st;
                token = uuid env;
                st2 = st1\<lparr>ADMIN_SESSIONS :=
                        (ADMIN_SESSIONS st1)(token \<mapsto> \<lparr>s_key = key, s_createdAt = now env\<rparr>)\<rparr>
            in (json [(''token'', JStr token)], st2))"

definition admin_login :: "login_env \<Rightarrow> server \<Rightarrow> jsval \<Rightarrow> response \<times> server" where
  "admin_login env st key =
     (if \<not> truthy key then (error_json 400 ''Key is required'', st)
      else login_callback env key (login_lookup (lookup_fails env) st key) st)"

text \<open>
  Two login requests whose reads are both answered before either callback runs: the
  schedule the event loop produces when the second request arrives while the first one's
  SELECT is still in flight.
\<close>

definition login_race ::
  "login_env \<Rightarrow> login_env \<Rightarrow> server \<Rightarrow> jsval \<Rightarrow> response \<times> response \<times> server" where
  "login_race envA envB st key =
     (let rowA = login_lookup (lookup_fails envA) st key;
          rowB = login_lookup (lookup_fails envB) st key;
          (respA, stA) = login_callback envA key rowA st;
          (respB, stB) = login_callback envB key rowB stA
      in (respA, respB, stB))"

text \<open>The same two requests one after the other.\<close>

definition login_twice ::
  "login_env \<Rightarrow> login_env \<Rightarrow> server \<Rightarrow> jsval \<Rightarrow> response \<times> response \<times> server" where
  "login_twice envA envB st key =
     (let (respA, stA) = admin_login envA st key;
          (respB, stB) = admin_login envB stA key
      in (respA, respB, stB))"

text \<open>The middleware \<open>requireAdmin\<close>: \<open>None\<close> is the call of \<open>next()\<close>.\<close>

definition bearer :: "string \<Rightarrow> string option" where
  "bearer authHeader =
     (if take 7 authHeader = ''Bearer '' then Some (drop 7 authHeader) else None)"

definition requireAdmin :: "server \<Rightarrow> string \<Rightarrow> response option" where
  "requireAdmin st authHeader =
     (case bearer authHeader of
        None \<Rightarrow> Some (error_json 401 ''Admin token required'')
      | Some token \<Rightarrow>
          if token = [] then Some (error_json 401 ''Admin token required'')
          else (case ADMIN_SESSIONS st token of
                  None \<Rightarrow> Some (error_json 401 ''Invalid or expired admin session'')
                | Some session \<Rightarrow> None))"

section \<open>Member resolution and creation (server.js)\<close>

text \<open>
  \<open>db.get\<close> hands the callback the first row the engine produces. For a disjunction of two
  indexed equalities the engine either walks the table in rowid order or looks the two
  terms up one after the other; which one it does is the query planner's choice, so it is
  an input of the model.
\<close>

datatype plan = RowidScan | TermByTerm

fun db_get_or :: "plan \<Rightarrow> ('r \<Rightarrow> bool) \<Rightarrow> ('r \<Rightarrow> bool) \<Rightarrow> 'r list \<Rightarrow> 'r option" where
  "db_get_or RowidScan p q rows = find (\<lambda>r. p r \<or> q r) rows"
| "db_get_or TermByTerm p q rows = (case find p rows of Some r \<Rightarrow> Some r | None \<Rightarrow> find q rows)"


record ensure_env =
  e_select_fails :: bool
  e_insert_fails :: bool
  e_reselect_fails :: bool
  e_created_at :: int

text \<open>\<open>v || ''\<close>\<close>

definition or_empty :: "jsval \<Rightarrow> jsval" where
  "or_empty v = (if truthy v then v else JStr [])"

definition ensureUserByRobloxProfile ::
  "ensure_env \<Rightarrow> server \<Rightarrow> jsval \<Rightarrow> jsval \<Rightarrow> jsval \<Rightarrow> user option db_result \<times> server" where
  "ensureUserByRobloxProfile env st robloxId username displayName =
     (if e_select_fails env then (DbErr, st)
      else (case find (\<lambda>r. text_col_eq (u_roblox_id r) (bind robloxId)) (users st) of
        Some row \<Rightarrow> (DbOk (Some row), st)
      | None \<Rightarrow>
          if e_insert_fails env then (DbErr, st)
          else
            (let lastID = next_rowid (map u_id (users st));
                 st1 = st\<lparr>users := users st @
                         [\<lparr>u_id = lastID, u_roblox_id = store_text (bind robloxId),
                           u_username = store_text (bind (or_empty username)),
                           u_display_name = store_text (bind (or_empty displayName)),
                           u_rank = Some ''Unassigned'', u_combat_points = 0,
                           u_created_at = e_created_at env\<rparr>]\<rparr>
             in if e_reselect_fails env then (DbErr, st1)
                else (DbOk (find (\<lambda>r. u_id r = lastID) (users st1)), st1))))"


section \<open>Training attendees (server.js)\<close>

text \<open>
  An element of the attendees array is any JSON value: a scalar, or an object or an array.
  Of an object or an array the handlers use only that it is truthy and what its
  \<open>toString()\<close> returns; \<open>Other None\<close> is one whose \<open>toString()\<close> raises a TypeError, as
  that of an object with a member named \<open>toString\<close> does (the member of a parsed body is
  never a function, so it cannot be called). What the driver binds for an object or an
  array is an input of the model, \<open>drv\<close>.
\<close>

datatype entry = Plain jsval | Other "string option"

fun entry_truthy :: "entry \<Rightarrow> bool" where
  "entry_truthy (Plain v) = truthy v"
| "entry_truthy (Other t) = True"

text \<open>\<open>x.toString()\<close>: \<open>None\<close> is the TypeError, which \<open>null\<close> raises too.\<close>

fun to_string :: "entry \<Rightarrow> string option" where
  "to_string (Plain v) = (if v = JNull then None else Some (js_to_string v))"
| "to_string (Other t) = t"

fun bind_entry :: "(string option \<Rightarrow> sqlval) \<Rightarrow> entry \<Rightarrow> sqlval" where
  "bind_entry drv (Plain v) = bind v"
| "bind_entry drv (Other t) = drv t"

text \<open>
  \<open>attendees\<close> is \<open>None\<close> when the body field is not an array. The prepared INSERT runs once
  per entry with the entry as it came; the table has no constraint a row could violate.
  The training id comes from the request path.
\<close>

fun insert_attendees ::
  "(string option \<Rightarrow> sqlval) \<Rightarrow> string \<Rightarrow> entry list \<Rightarrow> attendee list \<Rightarrow> attendee list" where
  "insert_attendees drv trainingId [] tbl = tbl"
| "insert_attendees drv trainingId (a # as) tbl =
     insert_attendees drv trainingId as
       (tbl @ [\<lparr>ta_id = next_rowid (map ta_id tbl),
                ta_training_id = int_affinity (SqlText trainingId),
                ta_attendee_roblox_id = store_text (bind_entry drv a)\<rparr>])"

definition post_attendees ::
  "(string \<Rightarrow> int option) \<Rightarrow> (string option \<Rightarrow> sqlval) \<Rightarrow> bool \<Rightarrow> bool \<Rightarrow> server \<Rightarrow> string \<Rightarrow>
     entry list option \<Rightarrow> response \<times> server" where
  "post_attendees cast drv lookup_err finalize_err st trainingId attendees =
     (case attendees of
        None \<Rightarrow> (error_json 400 ''attendees must be a non-empty array'', st)
      | Some as \<Rightarrow>
          if length as = 0 then (error_json 400 ''attendees must be a non-empty array'', st)
          else if lookup_err then (error_json 500 ''Database error'', st)
          else (case find (\<lambda>t. int_col_eq cast (t_id t) (SqlText trainingId)) (trainings st) of
            None \<Rightarrow> (error_json 404 ''Training not found'', st)
          | Some tRow \<Rightarrow>
              (let st1 = st\<lparr>training_attendees :=
                             insert_attendees drv trainingId as (training_attendees st)\<rparr>
               in if finalize_err then (error_json 500 ''Database error'', st1)
                  else (json [(''success'', JBool True)], st1))))"

section \<open>Avatar proxy\<close>

text \<open>
  What an awaited upstream call does: it throws (network failure, a status the client
  rejects, a body that is not JSON) or it delivers the parsed body. The thumbnail body is
  \<open>{ data: [ { imageUrl } ] }\<close> with every level possibly missing.
\<close>

datatype 'a upstream = Threw | Replied 'a

record thumb =
  imageUrl :: jsval

record thumbs =
  th_data :: "thumb option list option"

text \<open>\<open>data && data.data && data.data[0] && data.data[0].imageUrl\<close> and \<open>data?.data?.[0]?.imageUrl\<close>\<close>

definition first_image :: "thumbs option \<Rightarrow> jsval" where
  "first_image d =
     (case d of
        None \<Rightarrow> JNull
      | Some t \<Rightarrow>
          (case th_data t of
             None \<Rightarrow> JNull
           | Some [] \<Rightarrow> JNull
           | Some (None # rest) \<Rightarrow> JNull
           | Some (Some e # rest) \<Rightarrow> imageUrl e))"

text \<open>GET /api/avatar/:robloxId of server.js (axios).\<close>

definition avatar :: "thumbs option upstream \<Rightarrow> response" where
  "avatar resp =
     (case resp of
        Threw \<Rightarrow> json [(''imageUrl'', JNull)]
      | Replied d \<Rightarrow>
          let url = (if truthy (first_image d) then first_image d else JNull)
          in if \<not> truthy url then json [(''imageUrl'', JNull)]
             else json [(''imageUrl'', url)])"

text \<open>The same route in the points/valor server (node-fetch).\<close>

definition avatar_fetch :: "thumbs option upstream \<Rightarrow> response" where
  "avatar_fetch resp =
     (case resp of
        Threw \<Rightarrow> error_json 500 ''Failed to fetch avatar''
      | Replied d \<Rightarrow>
          let url = first_image d
          in if \<not> truthy url then error_json 404 ''Avatar not found''
             else json [(''imageUrl'', url)])"

section \<open>Aggregate statistics\<close>

text \<open>
  Each of the three COUNT queries reaches its callback as \<open>(err, row)\<close>; \<open>row_of\<close> is the
  second argument. A JavaScript object is the list of its properties; \<open>obj_set\<close> is the
  assignment \<open>o.k = v\<close>.
\<close>

record count_row =
  cnt :: int

fun row_of :: "'a option db_result \<Rightarrow> 'a option" where
  "row_of DbErr = None"
| "row_of (DbOk r) = r"

fun err_of :: "'a db_result \<Rightarrow> bool" where
  "err_of DbErr = True"
| "err_of (DbOk r) = False"

fun obj_set :: "string \<Rightarrow> jsval \<Rightarrow> jsobj \<Rightarrow> jsobj" where
  "obj_set k v [] = [(k, v)]"
| "obj_set k v ((k', v') # kvs) = (if k' = k then (k, v) # kvs else (k', v') # obj_set k v kvs)"

text \<open>\<open>row.cnt || 0\<close>\<close>

definition cnt_or_zero :: "count_row \<Rightarrow> jsval" where
  "cnt_or_zero row = (if truthy (JNum (cnt row)) then JNum (cnt row) else JNum 0)"

text \<open>GET /api/admin/stats of server.js: \<open>if (!err && row) stats.k = row.cnt || 0\<close>, three times.\<close>

definition stats_assign :: "string \<Rightarrow> count_row option db_result \<Rightarrow> jsobj \<Rightarrow> jsobj" where
  "stats_assign k q stats =
     (case row_of q of
        Some row \<Rightarrow> if \<not> err_of q then obj_set k (cnt_or_zero row) stats else stats
      | None \<Rightarrow> stats)"

definition admin_stats ::
  "count_row option db_result \<Rightarrow> count_row option db_result \<Rightarrow> count_row option db_result
     \<Rightarrow> response" where
  "admin_stats q_users q_trainings q_medals =
     (let stats = [(''active_personnel'', JNum 0), (''trainings_today'', JNum 0),
                   (''medals_awarded'', JNum 0)];
          stats1 = stats_assign ''active_personnel'' q_users stats;
          stats2 = stats_assign ''trainings_today'' q_trainings stats1;
          stats3 = stats_assign ''medals_awarded'' q_medals stats2
      in json stats3)"

text \<open>
  The same route in the points/valor server: \<open>status.k = row ? row.count : 0\<close> on an
  object that starts empty.
\<close>

definition count_or_zero :: "count_row option \<Rightarrow> jsval" where
  "count_or_zero row = (case row of Some r \<Rightarrow> JNum (cnt r) | None \<Rightarrow> JNum 0)"

definition admin_stats_pv ::
  "count_row option db_result \<Rightarrow> count_row option db_result \<Rightarrow> count_row option db_result
     \<Rightarrow> response" where
  "admin_stats_pv q_users q_trainings q_medals =
     (let status0 = [];
          status1 = obj_set ''active_personnel'' (count_or_zero (row_of q_users)) status0;
          status2 = obj_set ''trainings_today'' (count_or_zero (row_of q_trainings)) status1;
          status3 = obj_set ''medals_awarded'' (count_or_zero (row_of q_medals)) status2
      in json status3)"

text \<open>Reading a property: \<open>None\<close> when the object does not have it.\<close>

definition get_prop :: "jsobj \<Rightarrow> string \<Rightarrow> jsval option" where
  "get_prop obj k = map_of obj k"

section \<open>Roblox verification, append-log variant\<close>

text \<open>
  The profile body of \<open>users.roblox.com/v1/users/:id\<close>: the three members the code reads.
\<close>

record profile =
  description :: jsval
  name :: jsval
  displayName :: jsval

text \<open>\<open>String.prototype.includes\<close>\<close>

fun starts_with :: "string \<Rightarrow> string \<Rightarrow> bool" where
  "starts_with s [] = True"
| "starts_with [] (p # ps) = False"
| "starts_with (c # cs) (p # ps) = (c = p \<and> starts_with cs ps)"

fun str_includes :: "string \<Rightarrow> string \<Rightarrow> bool" where
  "str_includes [] pat = (pat = [])"
| "str_includes (c # cs) pat = (starts_with (c # cs) pat \<or> str_includes cs pat)"

text \<open>
  \<open>isExpired\<close>: the quotient is formed in the reals. On integral milliseconds the
  floating-point quotient compares with 10 the same way, its rounding error being far
  below the distance of any value other than 10 itself.
\<close>

definition isExpired :: "int \<Rightarrow> int \<Rightarrow> bool" where
  "isExpired now_ms timestamp =
     (let created = timestamp;
          diffMs = now_ms - created;
          diffMinutes = real_of_int diffMs / 1000 / 60
      in diffMinutes > 10)"

record start_env =
  sv_code :: string
  sv_now :: int
  sv_insert_fails :: bool

text \<open>POST /api/roblox/start-verification: every call appends a row.\<close>

definition start_verification :: "start_env \<Rightarrow> server \<Rightarrow> jsval \<Rightarrow> response \<times> server" where
  "start_verification env st roblox_id =
     (if \<not> truthy roblox_id then (error_json 400 ''roblox_id is required'', st)
      else
        (let code = sv_code env;
             createdAt = sv_now env
         in if sv_insert_fails env then (error_json 500 ''Failed to start verification'', st)
            else (json [(''code'', JStr code)],
                  st\<lparr>verification_codes := verification_codes st @
                    [\<lparr>vc_id = next_rowid (map vc_id (verification_codes st)),
                      vc_roblox_id = int_affinity (bind roblox_id),
                      vc_code = code, vc_created_at = createdAt\<rparr>]\<rparr>)))"

text \<open>\<open>ORDER BY id DESC LIMIT 1\<close>\<close>

fun latest :: "vcode list \<Rightarrow> vcode option" where
  "latest [] = None"
| "latest (r # rs) =
     (case latest rs of
        None \<Rightarrow> Some r
      | Some m \<Rightarrow> if vc_id m < vc_id r then Some r else Some m)"

definition latest_code :: "server \<Rightarrow> jsval \<Rightarrow> vcode option" where
  "latest_code st roblox_id =
     latest (filter (\<lambda>r. affinity_col_eq (vc_roblox_id r) (bind roblox_id)) (verification_codes st))"

text \<open>
  \<open>response.data?.description || ""\<close> followed by \<open>bio.includes(...)\<close>: a truthy description
  that is not a string has no \<open>includes\<close>, and the call throws into the \<open>catch\<close>.
\<close>

definition bio_of :: "jsval \<Rightarrow> string option" where
  "bio_of d = (if truthy d then (case d of JStr s \<Rightarrow> Some s | _ \<Rightarrow> None) else Some [])"

record check_env =
  ck_now :: int
  ck_uuid :: string
  ck_lookup_fails :: bool
  ck_profile :: "profile option upstream"

text \<open>POST /api/roblox/check. No branch writes to the database.\<close>

definition roblox_check :: "check_env \<Rightarrow> server \<Rightarrow> jsval \<Rightarrow> response \<times> server" where
  "roblox_check env st roblox_id =
     (if \<not> truthy roblox_id then (error_json 400 ''roblox_id is required'', st)
      else if ck_lookup_fails env then (error_json 500 ''Database error'', st)
      else (case latest_code st roblox_id of
        None \<Rightarrow> (error_json 400 ''No verification started'', st)
      | Some row \<Rightarrow>
          if isExpired (ck_now env) (vc_created_at row)
          then (error_json 400 ''Verification code expired'', st)
          else (case ck_profile env of
            Threw \<Rightarrow> (error_json 500 ''Verification check failed'', st)
          | Replied d \<Rightarrow>
              (case bio_of (case d of None \<Rightarrow> JNull | Some p \<Rightarrow> description p) of
                 None \<Rightarrow> (error_json 500 ''Verification check failed'', st)
               | Some bio \<Rightarrow>
                   if \<not> str_includes bio (vc_code row)
                   then (error_json 400 ''Verification code not found in bio'', st)
                   else
                     (let token = ck_uuid env
                      in case d of
                           None \<Rightarrow> (error_json 500 ''Verification check failed'', st)
                         | Some p \<Rightarrow>
                             (json [(''token'', JStr token), (''roblox_id'', roblox_id),
                                    (''username'', name p), (''display_name'', displayName p)],
                              st))))))"

section \<open>The points/valor server\<close>

text \<open>
  The two older servers share a \<open>users\<close> table with \<open>branch\<close>, \<open>points\<close> and \<open>valor\<close>
  (columns prefixed \<open>p_\<close>); the later of them adds \<open>verification_codes\<close> keyed by
  \<open>roblox_id\<close> (prefix \<open>vk_\<close>) and records attendance by internal id (prefix \<open>at_\<close>).
\<close>

record user_pv =
  p_id :: int
  p_roblox_id :: "string option"
  p_username :: "string option"
  p_display_name :: "string option"
  p_branch :: "string option"
  p_rank :: "string option"
  p_points :: int
  p_valor :: int
  p_created_at :: int

record vkey =
  vk_roblox_id :: "string option"
  vk_code :: string
  vk_expires_at :: int

record attendance =
  at_id :: int
  at_training_id :: sqlval
  at_user_id :: int

record server_pv =
  pv_users :: "user_pv list"
  pv_training_attendance :: "attendance list"
  pv_verification_codes :: "vkey list"

text \<open>
  \<open>INSERT ... ON CONFLICT(roblox_id) DO UPDATE SET ...\<close>: the row that holds the same
  non-NULL \<open>roblox_id\<close> is rewritten by \<open>upd\<close>, which receives the existing row and the
  proposed one (\<open>excluded\<close>); without such a row the proposed one is inserted.
\<close>

fun upsert_user :: "(user_pv \<Rightarrow> user_pv \<Rightarrow> user_pv) \<Rightarrow> user_pv \<Rightarrow> user_pv list \<Rightarrow> user_pv list" where
  "upsert_user upd excluded [] = [excluded]"
| "upsert_user upd excluded (r # rs) =
     (if p_roblox_id r \<noteq> None \<and> p_roblox_id r = p_roblox_id excluded
      then upd r excluded # rs
      else r # upsert_user upd excluded rs)"

text \<open>
  What the engine supplies for an inserted member: its rowid and \<open>CURRENT_TIMESTAMP\<close>; and
  whether the statement fails.
\<close>

record insert_env =
  i_rowid :: int
  i_created_at :: int
  i_fails :: bool

text \<open>POST /api/users of the oldest server: "Create or update a user".\<close>

definition set_profile_branch_rank :: "user_pv \<Rightarrow> user_pv \<Rightarrow> user_pv" where
  "set_profile_branch_rank r excluded =
     r\<lparr>p_username := p_username excluded, p_display_name := p_display_name excluded,
       p_branch := p_branch excluded, p_rank := p_rank excluded\<rparr>"

definition post_users ::
  "insert_env \<Rightarrow> server_pv \<Rightarrow> jsval \<Rightarrow> jsval \<Rightarrow> jsval \<Rightarrow> jsval \<Rightarrow> jsval \<Rightarrow> response \<times> server_pv" where
  "post_users env st roblox_id username display_name branch rank =
     (if i_fails env then (error_json 500 ''Failed to upsert user'', st)
      else (json [(''success'', JBool True)],
            st\<lparr>pv_users := upsert_user set_profile_branch_rank
              \<lparr>p_id = i_rowid env, p_roblox_id = store_text (bind roblox_id),
               p_username = store_text (bind username),
               p_display_name = store_text (bind display_name),
               p_branch = store_text (bind branch), p_rank = store_text (bind rank),
               p_points = 0, p_valor = 0, p_created_at = i_created_at env\<rparr>
              (pv_users st)\<rparr>))"

section \<open>Roblox verification, keyed-upsert variant\<close>

fun upsert_code :: "vkey \<Rightarrow> vkey list \<Rightarrow> vkey list" where
  "upsert_code excluded [] = [excluded]"
| "upsert_code excluded (r # rs) =
     (if vk_roblox_id r \<noteq> None \<and> vk_roblox_id r = vk_roblox_id excluded
      then r\<lparr>vk_code := vk_code excluded, vk_expires_at := vk_expires_at excluded\<rparr> # rs
      else r # upsert_code excluded rs)"

definition start_verification_pv :: "start_env \<Rightarrow> server_pv \<Rightarrow> jsval \<Rightarrow> response \<times> server_pv" where
  "start_verification_pv env st roblox_id =
     (if \<not> truthy roblox_id then (error_json 400 ''roblox_id is required'', st)
      else
        (let code = sv_code env;
             expiresAt = sv_now env + 10 * 60 * 1000
         in if sv_insert_fails env then (error_json 500 ''Failed to start verification'', st)
            else (json [(''success'', JBool True), (''code'', JStr code)],
                  st\<lparr>pv_verification_codes :=
                    upsert_code \<lparr>vk_roblox_id = store_text (bind roblox_id), vk_code = code,
                                 vk_expires_at = expiresAt\<rparr>
                      (pv_verification_codes st)\<rparr>)))"

definition set_profile :: "user_pv \<Rightarrow> user_pv \<Rightarrow> user_pv" where
  "set_profile r excluded =
     r\<lparr>p_username := p_username excluded, p_display_name := p_display_name excluded\<rparr>"

text \<open>
  The member upsert of a successful check. Its callback takes no error argument: a failed
  statement changes nothing and the handler goes on.
\<close>

definition upsert_member :: "insert_env \<Rightarrow> jsval \<Rightarrow> jsval \<Rightarrow> jsval \<Rightarrow> server_pv \<Rightarrow> server_pv" where
  "upsert_member env roblox_id username display_name st =
     (if i_fails env then st
      else st\<lparr>pv_users := upsert_user set_profile
             \<lparr>p_id = i_rowid env, p_roblox_id = store_text (bind roblox_id),
              p_username = store_text (bind username),
              p_display_name = store_text (bind display_name),
              p_branch = None, p_rank = None, p_points = 0, p_valor = 0,
              p_created_at = i_created_at env\<rparr>
             (pv_users st)\<rparr>)"

text \<open>\<open>DELETE FROM verification_codes WHERE roblox_id = ?\<close>, issued without a callback.\<close>

definition delete_code :: "bool \<Rightarrow> jsval \<Rightarrow> server_pv \<Rightarrow> server_pv" where
  "delete_code fails roblox_id st =
     (if fails then st
      else st\<lparr>pv_verification_codes :=
             filter (\<lambda>r. \<not> text_col_eq (vk_roblox_id r) (bind roblox_id)) (pv_verification_codes st)\<rparr>)"

record check_pv_env =
  k_now :: int
  k_date_now :: int
  k_lookup_fails :: bool
  k_profile :: "profile option upstream"
  k_insert :: insert_env
  k_delete_fails :: bool

text \<open>
  POST /api/roblox/check. \<open>userData.description\<close> is read without a guard, so a body that
  is \<open>null\<close> throws into the \<open>catch\<close>.
\<close>

definition roblox_check_pv :: "check_pv_env \<Rightarrow> server_pv \<Rightarrow> jsval \<Rightarrow> response \<times> server_pv" where
  "roblox_check_pv env st roblox_id =
     (if \<not> truthy roblox_id then (error_json 400 ''roblox_id is required'', st)
      else if k_lookup_fails env then (error_json 400 ''No verification code found'', st)
      else (case find (\<lambda>r. text_col_eq (vk_roblox_id r) (bind roblox_id)) (pv_verification_codes st) of
        None \<Rightarrow> (error_json 400 ''No verification code found'', st)
      | Some row \<Rightarrow>
          (let code = vk_code row; expires_at = vk_expires_at row
           in if expires_at < k_now env then (error_json 400 ''Verification code expired'', st)
              else (case k_profile env of
                Threw \<Rightarrow> (error_json 500 ''Failed to verify with Roblox'', st)
              | Replied None \<Rightarrow> (error_json 500 ''Failed to verify with Roblox'', st)
              | Replied (Some userData) \<Rightarrow>
                  (case bio_of (description userData) of
                     None \<Rightarrow> (error_json 500 ''Failed to verify with Roblox'', st)
                   | Some bio \<Rightarrow>
                       if \<not> str_includes bio code
                       then (error_json 400 ''Code not found in Roblox bio'', st)
                       else
                         (let username = name userData;
                              display_name = displayName userData;
                              st1 = upsert_member (k_insert env) roblox_id username display_name st;
                              st2 = delete_code (k_delete_fails env) roblox_id st1;
                              token = ''roblox_'' @ js_to_string roblox_id @ ''_'' @
                                      show_int (k_date_now env)
                          in (json [(''success'', JBool True), (''token'', JStr token),
                                    (''roblox_id'', roblox_id), (''username'', username),
                                    (''display_name'', display_name)], st2)))))))"

section \<open>Member resolution and attendance (points/valor server)\<close>

text \<open>
  \<open>resolveInternalUserId\<close>: \<open>SELECT id FROM users WHERE id = ? OR roblox_id = ?\<close> with the
  value and its \<open>toString()\<close>. The parameter array is built before \<open>db.get\<close> is called, so
  the \<open>TypeError\<close> of \<open>toString()\<close> leaves the function as an exception and no query is
  issued; the other two errors reach the callback. The callers pass a string from the
  request path or a member of the body.
\<close>

datatype resolve_error = TypeError | QueryFailed | UserNotFound

definition resolveInternalUserId ::
  "(string \<Rightarrow> int option) \<Rightarrow> (string option \<Rightarrow> sqlval) \<Rightarrow> plan \<Rightarrow> bool \<Rightarrow> server_pv \<Rightarrow> entry \<Rightarrow>
     (resolve_error + int) \<times> server_pv" where
  "resolveInternalUserId cast drv pl fails st idOrRoblox =
     (case to_string idOrRoblox of
        None \<Rightarrow> (Inl TypeError, st)
      | Some str \<Rightarrow>
          if fails then (Inl QueryFailed, st)
          else (case db_get_or pl (\<lambda>r. int_col_eq cast (p_id r) (bind_entry drv idOrRoblox))
                                  (\<lambda>r. text_col_eq (p_roblox_id r) (SqlText str))
                                  (pv_users st) of
                  None \<Rightarrow> (Inl UserNotFound, st)
                | Some row \<Rightarrow> (Inr (p_id row), st)))"

text \<open>
  POST /api/trainings/:trainingId/attendees, resolving variant. The \<open>forEach\<close> runs before
  any lookup answers: a falsy entry is counted off at once, any other entry is handed to
  \<open>resolveInternalUserId\<close>, which issues a lookup whose callback runs later. When that call
  raises, the exception leaves the \<open>forEach\<close> and the handler, Express answers in the
  handler's place, and the entries after the raising one are never visited. The callbacks
  of the lookups issued run afterwards, in the order the driver delivers them, which is an
  input of the model. The state of the request is the counter \<open>pending\<close>, the responses
  sent so far, the entries whose callbacks are outstanding, and the database. \<open>hadError\<close>
  is never assigned after its initialisation.
\<close>

record attendees_run =
  pending :: int
  sent :: "response list"
  outstanding :: "entry list"
  run_db :: server_pv

definition hadError :: bool where
  "hadError = False"

record attendees_env =
  a_cast :: "string \<Rightarrow> int option"
  a_bind_other :: "string option \<Rightarrow> sqlval"
  a_plan :: plan
  a_lookup_fails :: "entry \<Rightarrow> bool"
  a_delivery :: "entry list \<Rightarrow> entry list"
  a_finalize_fails :: bool

definition skip_entry :: "attendees_run \<Rightarrow> attendees_run" where
  "skip_entry run =
     (let run1 = run\<lparr>pending := pending run - 1\<rparr>
      in if pending run1 = 0 \<and> \<not> hadError
         then run1\<lparr>sent := sent run1 @ [json [(''success'', JBool True)]]\<rparr>
         else run1)"

fun for_each_attendee :: "entry list \<Rightarrow> attendees_run \<Rightarrow> attendees_run" where
  "for_each_attendee [] run = run"
| "for_each_attendee (rawId # rest) run =
     (if \<not> entry_truthy rawId then for_each_attendee rest (skip_entry run)
      else (case to_string rawId of
              None \<Rightarrow> run\<lparr>sent := sent run @ [express_error]\<rparr>
            | Some str \<Rightarrow> for_each_attendee rest (run\<lparr>outstanding := outstanding run @ [rawId]\<rparr>)))"

definition record_attendance :: "string \<Rightarrow> int \<Rightarrow> server_pv \<Rightarrow> server_pv" where
  "record_attendance trainingId internalId st =
     st\<lparr>pv_training_attendance := pv_training_attendance st @
        [\<lparr>at_id = next_rowid (map at_id (pv_training_attendance st)),
          at_training_id = int_affinity (SqlText trainingId), at_user_id = internalId\<rparr>]\<rparr>"

definition resolved_entry :: "attendees_env \<Rightarrow> string \<Rightarrow> entry \<Rightarrow> attendees_run \<Rightarrow> attendees_run" where
  "resolved_entry env trainingId rawId run =
     (let run1 =
            (case fst (resolveInternalUserId (a_cast env) (a_bind_other env) (a_plan env)
                         (a_lookup_fails env rawId) (run_db run) rawId) of
               Inl err \<Rightarrow> run
             | Inr internalId \<Rightarrow>
                 run\<lparr>run_db := record_attendance trainingId internalId (run_db run)\<rparr>);
          run2 = run1\<lparr>pending := pending run1 - 1\<rparr>
      in if pending run2 = 0 \<and> \<not> hadError
         then run2\<lparr>sent := sent run2 @
                [if a_finalize_fails env then error_json 500 ''Failed to add attendees''
                 else json [(''success'', JBool True)]]\<rparr>
         else run2)"

fun run_callbacks :: "attendees_env \<Rightarrow> string \<Rightarrow> entry list \<Rightarrow> attendees_run \<Rightarrow> attendees_run" where
  "run_callbacks env trainingId [] run = run"
| "run_callbacks env trainingId (rawId # rest) run =
     run_callbacks env trainingId rest (resolved_entry env trainingId rawId run)"

definition post_attendees_pv ::
  "attendees_env \<Rightarrow> server_pv \<Rightarrow> string \<Rightarrow> entry list option \<Rightarrow> response list \<times> server_pv" where
  "post_attendees_pv env st trainingId attendees =
     (case attendees of
        None \<Rightarrow> ([error_json 400 ''Attendees array required''], st)
      | Some as \<Rightarrow>
          if length as = 0 then ([error_json 400 ''Attendees array required''], st)
          else
            (let run0 = \<lparr>pending = int (length as), sent = [], outstanding = [], run_db = st\<rparr>;
                 run1 = for_each_attendee as run0;
                 run2 = run_callbacks env trainingId (a_delivery env (outstanding run1))
                          (run1\<lparr>outstanding := []\<rparr>)
             in (sent run2, run_db run2)))"


section \<open>Properties of the decimal numerals\<close>

lemma show_nat_digit: "n < 10 \<Longrightarrow> show_nat n = [digit_char n]"
  by (subst show_nat.simps) simp

lemma show_nat_step: "\<not> n < 10 \<Longrightarrow> show_nat n = show_nat (n div 10) @ [digit_char (n mod 10)]"
  by (subst show_nat.simps) simp

lemma digit_val_char: "d < 10 \<Longrightarrow> digit_val (digit_char d) = d"
  by (simp add: digit_val_def digit_char_def)

lemma is_digit_char: "d < 10 \<Longrightarrow> is_digit (digit_char d)"
  by (simp add: is_digit_def digit_char_def)

lemma show_nat_digits: "\<forall>c \<in> set (show_nat n). is_digit c"
proof (induction n rule: show_nat.induct)
  case (1 n)
  show ?case
  proof (cases "n < 10")
    case True
    then show ?thesis by (simp add: show_nat_digit is_digit_char)
  next
    case False
    with 1 have "\<forall>c \<in> set (show_nat (n div 10)). is_digit c" by simp
    with False show ?thesis by (simp add: show_nat_step is_digit_char)
  qed
qed

lemma digits_value_snoc: "digits_value (ds @ [c]) = 10 * digits_value ds + int (digit_val c)"
  by (simp add: digits_value_def)

lemma digits_value_show_nat: "digits_value (show_nat n) = int n"
proof (induction n rule: show_nat.induct)
  case (1 n)
  show ?case
  proof (cases "n < 10")
    case True
    then show ?thesis by (simp add: show_nat_digit digits_value_def digit_val_char)
  next
    case False
    with 1 have "digits_value (show_nat (n div 10)) = int (n div 10)" by simp
    moreover have "10 * int (n div 10) + int (n mod 10) = int n" by presburger
    ultimately show ?thesis
      using False by (simp add: show_nat_step digits_value_snoc digit_val_char)
  qed
qed

lemma show_nat_not_empty: "show_nat n \<noteq> []"
  by (cases "n < 10") (simp_all add: show_nat_digit show_nat_step)

lemma digit_not_space_or_sign:
  "is_digit c \<Longrightarrow> \<not> is_space c \<and> c \<noteq> CHR ''-'' \<and> c \<noteq> CHR ''+''"
  by (auto simp: is_digit_def is_space_def)

lemma take_digits_all: "\<forall>c \<in> set ds. is_digit c \<Longrightarrow> takeWhile is_digit ds = ds"
  by simp

lemma drop_digits_all: "\<forall>c \<in> set ds. is_digit c \<Longrightarrow> dropWhile is_digit ds = []"
  by simp

text \<open>A text of digits, with or without a minus sign in front, is read as its value.\<close>

lemma sql_numeric_digits:
  assumes "ds \<noteq> []" "\<forall>c \<in> set ds. is_digit c"
  shows "sql_numeric ds =
           (if in_int64 (digits_value ds) then Some (digits_value ds) else None)"
    and "sql_numeric (CHR ''-'' # ds) =
           (if in_int64 (- digits_value ds) then Some (- digits_value ds) else None)"
proof -
  from assms obtain c cs where ds: "ds = c # cs" "is_digit c" by (cases ds) auto
  with digit_not_space_or_sign [of c]
  have s: "take_sign (dropWhile is_space ds) = (False, ds)" by simp
  have m: "take_sign (dropWhile is_space (CHR ''-'' # ds)) = (True, ds)"
    by (simp add: is_space_def)
  note t = take_digits_all [OF assms(2)] drop_digits_all [OF assms(2)]
  from assms(1) show "sql_numeric ds =
           (if in_int64 (digits_value ds) then Some (digits_value ds) else None)"
    unfolding sql_numeric_def s by (simp add: scale_def t)
  from assms(1) show "sql_numeric (CHR ''-'' # ds) =
           (if in_int64 (- digits_value ds) then Some (- digits_value ds) else None)"
    unfolding sql_numeric_def m by (simp add: scale_def t)
qed

text \<open>Every integer a 64-bit column holds is read back from its decimal numeral.\<close>

lemma sql_numeric_show_int: "in_int64 i \<Longrightarrow> sql_numeric (show_int i) = Some i"
  using sql_numeric_digits [OF show_nat_not_empty show_nat_digits, of "nat i"]
    sql_numeric_digits [OF show_nat_not_empty show_nat_digits, of "nat (- i)"]
  by (simp add: show_int_def digits_value_show_nat)

lemmas show_simps = show_int_def show_nat_digit show_nat_step digit_char_def char_of_def bit_Suc_0_iff

text \<open>Unfolding rules for evaluating the model on concrete requests.\<close>

lemmas eval_simps = sql_numeric_def is_space_def is_digit_def digit_val_def digits_value_def
  scale_def in_int64_def is_int32_def real_text_def next_rowid_def Let_def
  affinity_col_eq_def latest_code_def bio_of_def json_def error_json_def status_json_def

section \<open>Properties of the admin-key exchange\<close>

lemma find_by_key:
  "r \<in> set rows \<Longrightarrow> distinct (map ak_key rows) \<Longrightarrow> find (\<lambda>x. ak_key x = ak_key r) rows = Some r"
  by (induction rows) (auto simp: rev_image_eqI)

lemma find_no_key:
  "k \<notin> ak_key ` set rows \<Longrightarrow> find (\<lambda>x. ak_key x = k) rows = None"
  by (induction rows) auto

text \<open>Key creation keeps the keys distinct, as the UNIQUE constraint demands.\<close>

lemma create_admin_key_distinct:
  "distinct (map ak_key (admin_keys st)) \<Longrightarrow>
   distinct (map ak_key (admin_keys (snd (create_admin_key env st))))"
  by (auto simp: create_admin_key_def Let_def)

text \<open>
  A key just created is exchanged up to and including the instant twelve hours after its
  creation, and refused as expired afterwards.
\<close>

lemma created_key_exchange:
  assumes "distinct (map ak_key (admin_keys st))" "uuid cenv \<notin> ak_key ` set (admin_keys st)"
    "uuid cenv \<noteq> []" "\<not> write_fails cenv" "\<not> lookup_fails env"
  shows "fst (admin_login env (snd (create_admin_key cenv st)) (JStr (uuid cenv))) =
    (if now cenv + 12 * 60 * 60 * 1000 < now env then error_json 401 ''Key expired''
     else json [(''token'', JStr (uuid env))])"
proof -
  let ?r = "\<lparr>ak_id = next_rowid (map ak_id (admin_keys st)), ak_key = uuid cenv,
             ak_created_at = now cenv, ak_expires_at = now cenv + 12 * 60 * 60 * 1000,
             ak_used = 0\<rparr>"
  let ?st = "snd (create_admin_key cenv st)"
  from assms(2,4) have k: "admin_keys ?st = admin_keys st @ [?r]"
    by (simp add: create_admin_key_def Let_def)
  with assms(1,2) have "distinct (map ak_key (admin_keys ?st))" by auto
  moreover from k have "?r \<in> set (admin_keys ?st)" by simp
  ultimately have "find (\<lambda>x. ak_key x = ak_key ?r) (admin_keys ?st) = Some ?r"
    by (rule find_by_key [rotated])
  with assms(3,5) show ?thesis
    by (simp add: admin_login_def login_lookup_def login_callback_def Let_def)
qed

text \<open>
  The exchange read as "valid iff the current time is strictly before the expiry" fails at
  the instant of expiry itself: the guard is \<open>new Date(row.expires_at) < now\<close>, so a key
  presented exactly at \<open>expires_at\<close> is still exchanged.
\<close>

theorem admin_login_boundary_counterexample:
  "fst (admin_login \<lparr>now = 1000, uuid = ''t1'', lookup_fails = False, write_fails = False\<rparr>
        \<lparr>users = [], trainings = [], training_attendees = [],
         admin_keys = [\<lparr>ak_id = 1, ak_key = ''k1'', ak_created_at = 0,
                        ak_expires_at = 1000, ak_used = 0\<rparr>],
         verification_codes = [], ADMIN_SESSIONS = Map.empty\<rparr> (JStr ''k1''))
     = json [(''token'', JStr ''t1'')] \<and> \<not> ((1000::int) < 1000)"
  by (simp add: admin_login_def login_lookup_def login_callback_def mark_used_def Let_def)

text \<open>
  C1 (as amended). For every stored admin key, presented when the lookup itself does not
  fail, the exchange succeeds with the fresh token exactly when the current time is not
  after the key's expiry and its used flag is 0. Otherwise it answers 401: "Key expired"
  when the expiry is before the current time, and "Key already used" when the key is not
  expired and the flag is set. A non-empty key that no record holds answers 401
  "Invalid key".
\<close>

theorem admin_login_outcomes:
  "(r \<in> set (admin_keys st) \<and> distinct (map ak_key (admin_keys st)) \<and> ak_key r \<noteq> [] \<and>
    \<not> lookup_fails env \<longrightarrow>
      fst (admin_login env st (JStr (ak_key r))) =
        (if ak_expires_at r < now env then error_json 401 ''Key expired''
         else if ak_used r \<noteq> 0 then error_json 401 ''Key already used''
         else json [(''token'', JStr (uuid env))]) \<and>
      (status (fst (admin_login env st (JStr (ak_key r)))) = 200
         \<longleftrightarrow> now env \<le> ak_expires_at r \<and> ak_used r = 0)) \<and>
   (k \<noteq> [] \<and> k \<notin> ak_key ` set (admin_keys st) \<and> \<not> lookup_fails env \<longrightarrow>
      fst (admin_login env st (JStr k)) = error_json 401 ''Invalid key'')"
  by (auto simp: admin_login_def login_lookup_def login_callback_def find_by_key find_no_key
      Let_def error_json_def status_json_def json_def)

theorem admin_login_outcomes_witness:
  "fst (admin_login \<lparr>now = 1000, uuid = ''t1'', lookup_fails = False, write_fails = False\<rparr>
        \<lparr>users = [], trainings = [], training_attendees = [],
         admin_keys = [\<lparr>ak_id = 1, ak_key = ''k1'', ak_created_at = 0,
                        ak_expires_at = 1000, ak_used = 0\<rparr>],
         verification_codes = [], ADMIN_SESSIONS = Map.empty\<rparr> (JStr ''k1''))
     = json [(''token'', JStr ''t1'')] \<and>
   fst (admin_login \<lparr>now = 1000, uuid = ''t1'', lookup_fails = False, write_fails = False\<rparr>
        \<lparr>users = [], trainings = [], training_attendees = [],
         admin_keys = [\<lparr>ak_id = 1, ak_key = ''k1'', ak_created_at = 0,
                        ak_expires_at = 1000, ak_used = 0\<rparr>],
         verification_codes = [], ADMIN_SESSIONS = Map.empty\<rparr> (JStr ''zz''))
     = error_json 401 ''Invalid key''"
  using admin_login_outcomes [of
      "\<lparr>ak_id = 1, ak_key = ''k1'', ak_created_at = 0, ak_expires_at = 1000, ak_used = 0\<rparr>"
      "\<lparr>users = [], trainings = [], training_attendees = [],
        admin_keys = [\<lparr>ak_id = 1, ak_key = ''k1'', ak_created_at = 0,
                       ak_expires_at = 1000, ak_used = 0\<rparr>],
        verification_codes = [], ADMIN_SESSIONS = Map.empty\<rparr>"
      "\<lparr>now = 1000, uuid = ''t1'', lookup_fails = False, write_fails = False\<rparr>" "''zz''"]
  by simp

subsection \<open>Single use\<close>

lemma find_map_used:
  "find (\<lambda>x. ak_key x = k) (map (\<lambda>x. if ak_id x = i then x\<lparr>ak_used := 1\<rparr> else x) rows) =
   map_option (\<lambda>x. if ak_id x = i then x\<lparr>ak_used := 1\<rparr> else x) (find (\<lambda>x. ak_key x = k) rows)"
  by (induction rows) auto

text \<open>
  One request after the other, the UPDATE of the first having taken effect: the first is
  given a token and the second is refused.
\<close>

lemma login_twice_second_refused:
  assumes "r \<in> set (admin_keys st)" "distinct (map ak_key (admin_keys st))" "ak_key r \<noteq> []"
    "\<not> lookup_fails envA" "\<not> write_fails envA" "\<not> lookup_fails envB"
    "now envA \<le> ak_expires_at r" "ak_used r = 0" "now envB \<le> ak_expires_at r"
  shows "fst (login_twice envA envB st (JStr (ak_key r))) = json [(''token'', JStr (uuid envA))]"
    and "fst (snd (login_twice envA envB st (JStr (ak_key r)))) = error_json 401 ''Key already used''"
  using assms
  by (simp_all add: login_twice_def admin_login_def login_lookup_def login_callback_def
      mark_used_def find_by_key find_map_used Let_def split_beta)

text \<open>
  Under the racing schedule every unused, unexpired key is exchanged twice, whatever the
  state around it.
\<close>

lemma login_race_any_key:
  assumes "r \<in> set (admin_keys st)" "distinct (map ak_key (admin_keys st))"
    "\<not> lookup_fails envA" "\<not> lookup_fails envB"
    "now envA \<le> ak_expires_at r" "now envB \<le> ak_expires_at r" "ak_used r = 0"
  shows "fst (login_race envA envB st (JStr (ak_key r))) = json [(''token'', JStr (uuid envA))]"
    and "fst (snd (login_race envA envB st (JStr (ak_key r)))) = json [(''token'', JStr (uuid envB))]"
  using assms
  by (simp_all add: login_race_def login_lookup_def login_callback_def find_by_key Let_def split_beta)

text \<open>
  C2. Admin keys are single-use, also when two exchanges of the same key race. The code at
  the race: both requests read the row while its flag is still 0, both callbacks pass the
  check, and each is given a token that \<open>requireAdmin\<close> accepts afterwards.
\<close>

theorem login_race_both_succeed:
  "login_race \<lparr>now = 10, uuid = ''tokenA'', lookup_fails = False, write_fails = False\<rparr>
              \<lparr>now = 11, uuid = ''tokenB'', lookup_fails = False, write_fails = False\<rparr>
        \<lparr>users = [], trainings = [], training_attendees = [],
         admin_keys = [\<lparr>ak_id = 1, ak_key = ''k1'', ak_created_at = 0,
                        ak_expires_at = 1000, ak_used = 0\<rparr>],
         verification_codes = [], ADMIN_SESSIONS = Map.empty\<rparr> (JStr ''k1'')
   = (json [(''token'', JStr ''tokenA'')], json [(''token'', JStr ''tokenB'')],
      \<lparr>users = [], trainings = [], training_attendees = [],
         admin_keys = [\<lparr>ak_id = 1, ak_key = ''k1'', ak_created_at = 0,
                        ak_expires_at = 1000, ak_used = 1\<rparr>],
         verification_codes = [],
         ADMIN_SESSIONS = [''tokenA'' \<mapsto> \<lparr>s_key = JStr ''k1'', s_createdAt = 10\<rparr>,
                           ''tokenB'' \<mapsto> \<lparr>s_key = JStr ''k1'', s_createdAt = 11\<rparr>]\<rparr>) \<and>
   requireAdmin (snd (snd (login_race
        \<lparr>now = 10, uuid = ''tokenA'', lookup_fails = False, write_fails = False\<rparr>
        \<lparr>now = 11, uuid = ''tokenB'', lookup_fails = False, write_fails = False\<rparr>
        \<lparr>users = [], trainings = [], training_attendees = [],
         admin_keys = [\<lparr>ak_id = 1, ak_key = ''k1'', ak_created_at = 0,
                        ak_expires_at = 1000, ak_used = 0\<rparr>],
         verification_codes = [], ADMIN_SESSIONS = Map.empty\<rparr> (JStr ''k1''))))
      ''Bearer tokenA'' = None \<and>
   requireAdmin (snd (snd (login_race
        \<lparr>now = 10, uuid = ''tokenA'', lookup_fails = False, write_fails = False\<rparr>
        \<lparr>now = 11, uuid = ''tokenB'', lookup_fails = False, write_fails = False\<rparr>
        \<lparr>users = [], trainings = [], training_attendees = [],
         admin_keys = [\<lparr>ak_id = 1, ak_key = ''k1'', ak_created_at = 0,
                        ak_expires_at = 1000, ak_used = 0\<rparr>],
         verification_codes = [], ADMIN_SESSIONS = Map.empty\<rparr> (JStr ''k1''))))
      ''Bearer tokenB'' = None"
  by (simp add: login_race_def login_lookup_def login_callback_def mark_used_def Let_def
      requireAdmin_def bearer_def)

section \<open>Properties of the avatar proxy\<close>

lemma avatar_status: "status (avatar resp) = 200"
  by (cases resp) (simp_all add: avatar_def json_def Let_def)

text \<open>
  The proxy of the points/valor server does answer with error statuses: 500 when the
  upstream call throws and 404 when the body carries no image.
\<close>

theorem avatar_fetch_counterexample:
  "status (avatar_fetch Threw) = 500 \<and>
   status (avatar_fetch (Replied (Some \<lparr>th_data = Some []\<rparr>))) = 404"
  by (simp add: avatar_fetch_def first_image_def error_json_def status_json_def Let_def)

text \<open>
  C9 (as amended). In server.js the avatar proxy answers 200 for every outcome of the
  upstream thumbnail call: with \<open>imageUrl: null\<close> when the call throws or the body has no
  usable image, and with the image otherwise. The proxy of the points/valor server answers
  500 when the call throws and 404 when there is no image, and the image otherwise.
\<close>

theorem avatar_outcomes:
  "status (avatar resp) = 200 \<and>
   avatar Threw = json [(''imageUrl'', JNull)] \<and>
   (\<not> truthy (first_image d) \<longrightarrow> avatar (Replied d) = json [(''imageUrl'', JNull)]) \<and>
   (truthy (first_image d) \<longrightarrow> avatar (Replied d) = json [(''imageUrl'', first_image d)]) \<and>
   avatar_fetch Threw = error_json 500 ''Failed to fetch avatar'' \<and>
   (\<not> truthy (first_image d) \<longrightarrow> avatar_fetch (Replied d) = error_json 404 ''Avatar not found'') \<and>
   (truthy (first_image d) \<longrightarrow> avatar_fetch (Replied d) = json [(''imageUrl'', first_image d)])"
  by (simp add: avatar_status) (simp add: avatar_def avatar_fetch_def Let_def)

theorem avatar_outcomes_witness:
  "avatar (Replied (Some \<lparr>th_data = Some []\<rparr>)) = json [(''imageUrl'', JNull)] \<and>
   avatar (Replied (Some \<lparr>th_data = Some [Some \<lparr>imageUrl = JStr ''https://t/1.png''\<rparr>]\<rparr>))
     = json [(''imageUrl'', JStr ''https://t/1.png'')] \<and>
   avatar_fetch (Replied (Some \<lparr>th_data = Some []\<rparr>)) = error_json 404 ''Avatar not found''"
  using avatar_outcomes [of _ "Some \<lparr>th_data = Some []\<rparr>"]
    avatar_outcomes [of _ "Some \<lparr>th_data = Some [Some \<lparr>imageUrl = JStr ''https://t/1.png''\<rparr>]\<rparr>"]
  by (simp add: first_image_def)

section \<open>Properties of the aggregate statistics\<close>

lemma get_prop_obj_set: "get_prop (obj_set k v obj) k' = (if k' = k then Some v else get_prop obj k')"
  by (induction obj) (auto simp: get_prop_def)

lemma get_prop_stats_assign_err: "get_prop (stats_assign k DbErr stats) k' = get_prop stats k'"
  by (simp add: stats_assign_def)

lemma get_prop_stats_assign_present:
  "get_prop stats k' \<noteq> None \<Longrightarrow> get_prop (stats_assign k q stats) k' \<noteq> None"
  by (cases q) (auto simp: stats_assign_def get_prop_obj_set split: option.splits)

lemma get_prop_stats_assign_other:
  "k' \<noteq> k \<Longrightarrow> get_prop (stats_assign k q stats) k' = get_prop stats k'"
  by (cases q) (auto simp: stats_assign_def get_prop_obj_set split: option.splits)

text \<open>
  C10. The aggregate-stats endpoint never fails: whatever the three COUNT queries deliver,
  the response is 200 and carries all three counters, and a counter whose query errored is
  reported as 0. This holds for the route of server.js and for the one of the points/valor
  server.
\<close>

theorem admin_stats_never_fails:
  "status (admin_stats q1 q2 q3) = 200 \<and>
   get_prop (body (admin_stats q1 q2 q3)) ''active_personnel'' \<noteq> None \<and>
   get_prop (body (admin_stats q1 q2 q3)) ''trainings_today'' \<noteq> None \<and>
   get_prop (body (admin_stats q1 q2 q3)) ''medals_awarded'' \<noteq> None \<and>
   (q1 = DbErr \<longrightarrow> get_prop (body (admin_stats q1 q2 q3)) ''active_personnel'' = Some (JNum 0)) \<and>
   (q2 = DbErr \<longrightarrow> get_prop (body (admin_stats q1 q2 q3)) ''trainings_today'' = Some (JNum 0)) \<and>
   (q3 = DbErr \<longrightarrow> get_prop (body (admin_stats q1 q2 q3)) ''medals_awarded'' = Some (JNum 0)) \<and>
   status (admin_stats_pv q1 q2 q3) = 200 \<and>
   get_prop (body (admin_stats_pv q1 q2 q3)) ''active_personnel'' \<noteq> None \<and>
   get_prop (body (admin_stats_pv q1 q2 q3)) ''trainings_today'' \<noteq> None \<and>
   get_prop (body (admin_stats_pv q1 q2 q3)) ''medals_awarded'' \<noteq> None \<and>
   (q1 = DbErr \<longrightarrow> get_prop (body (admin_stats_pv q1 q2 q3)) ''active_personnel'' = Some (JNum 0)) \<and>
   (q2 = DbErr \<longrightarrow> get_prop (body (admin_stats_pv q1 q2 q3)) ''trainings_today'' = Some (JNum 0)) \<and>
   (q3 = DbErr \<longrightarrow> get_prop (body (admin_stats_pv q1 q2 q3)) ''medals_awarded'' = Some (JNum 0))"
proof -
  have init: "get_prop [(''active_personnel'', JNum 0), (''trainings_today'', JNum 0),
                   (''medals_awarded'', JNum 0)] k =
      (if k = ''active_personnel'' \<or> k = ''trainings_today'' \<or> k = ''medals_awarded''
       then Some (JNum 0) else None)" for k
    by (simp add: get_prop_def)
  have a: "status (admin_stats q1 q2 q3) = 200" "status (admin_stats_pv q1 q2 q3) = 200"
    by (simp_all add: admin_stats_def admin_stats_pv_def json_def Let_def)
  have b: "get_prop (body (admin_stats q1 q2 q3)) ''active_personnel'' \<noteq> None"
    "get_prop (body (admin_stats q1 q2 q3)) ''trainings_today'' \<noteq> None"
    "get_prop (body (admin_stats q1 q2 q3)) ''medals_awarded'' \<noteq> None"
    by (simp_all add: admin_stats_def json_def Let_def get_prop_stats_assign_present init)
  have c: "q1 = DbErr \<Longrightarrow> get_prop (body (admin_stats q1 q2 q3)) ''active_personnel'' = Some (JNum 0)"
    "q2 = DbErr \<Longrightarrow> get_prop (body (admin_stats q1 q2 q3)) ''trainings_today'' = Some (JNum 0)"
    "q3 = DbErr \<Longrightarrow> get_prop (body (admin_stats q1 q2 q3)) ''medals_awarded'' = Some (JNum 0)"
    by (simp_all add: admin_stats_def json_def Let_def get_prop_stats_assign_err
        get_prop_stats_assign_other init)
  have d: "get_prop (body (admin_stats_pv q1 q2 q3)) ''active_personnel'' = Some (count_or_zero (row_of q1))"
    "get_prop (body (admin_stats_pv q1 q2 q3)) ''trainings_today'' = Some (count_or_zero (row_of q2))"
    "get_prop (body (admin_stats_pv q1 q2 q3)) ''medals_awarded'' = Some (count_or_zero (row_of q3))"
    by (simp_all add: admin_stats_pv_def json_def Let_def get_prop_def)
  have e: "count_or_zero (row_of DbErr) = JNum 0"
    by (simp add: count_or_zero_def)
  show ?thesis
    using a b c d e by auto
qed

theorem admin_stats_never_fails_witness:
  "admin_stats DbErr (DbOk (Some \<lparr>cnt = 3\<rparr>)) DbErr =
     json [(''active_personnel'', JNum 0), (''trainings_today'', JNum 3), (''medals_awarded'', JNum 0)] \<and>
   get_prop (body (admin_stats DbErr (DbOk (Some \<lparr>cnt = 3\<rparr>)) DbErr)) ''active_personnel'' = Some (JNum 0) \<and>
   get_prop (body (admin_stats_pv DbErr DbErr DbErr)) ''medals_awarded'' = Some (JNum 0)"
  using admin_stats_never_fails [of DbErr "DbOk (Some \<lparr>cnt = 3\<rparr>)" DbErr]
    admin_stats_never_fails [of DbErr DbErr DbErr]
  by (simp add: admin_stats_def stats_assign_def cnt_or_zero_def Let_def)

section \<open>Properties of the verification protocol\<close>

lemma isExpired_iff: "isExpired now_ms t \<longleftrightarrow> now_ms - t > 10 * 60 * 1000"
  by (auto simp: isExpired_def Let_def field_simps)

lemma text_col_eq_store: "text_col_eq c p \<longleftrightarrow> c \<noteq> None \<and> c = store_text p"
  by (cases c; cases p) auto

lemma truthy_store: "truthy v \<Longrightarrow> store_text (bind v) \<noteq> None"
  by (cases v) auto

lemma find_upsert_code:
  "vk_roblox_id e \<noteq> None \<Longrightarrow>
   \<exists>r. find (\<lambda>r. vk_roblox_id r \<noteq> None \<and> vk_roblox_id r = vk_roblox_id e) (upsert_code e rows) = Some r
     \<and> vk_code r = vk_code e \<and> vk_expires_at r = vk_expires_at e"
  by (induction rows) auto



lemma roblox_check_readonly: "snd (roblox_check env st rid) = st"
  by (simp add: roblox_check_def Let_def split: option.splits upstream.splits)

lemma roblox_check_pv_failure:
  "status (fst (roblox_check_pv env st rid)) \<noteq> 200 \<Longrightarrow> snd (roblox_check_pv env st rid) = st"
  by (simp add: roblox_check_pv_def Let_def json_def split: option.splits upstream.splits if_splits)

lemma roblox_check_pv_success:
  assumes "status (fst (roblox_check_pv env st rid)) = 200"
    and "k_profile env = Replied (Some userData)"
  shows "roblox_check_pv env st rid =
     (json [(''success'', JBool True),
            (''token'', JStr (''roblox_'' @ js_to_string rid @ ''_'' @ show_int (k_date_now env))),
            (''roblox_id'', rid), (''username'', name userData),
            (''display_name'', displayName userData)],
      delete_code (k_delete_fails env) rid
        (upsert_member (k_insert env) rid (name userData) (displayName userData) st))"
    and "truthy rid"
  using assms
  by (auto simp: roblox_check_pv_def Let_def error_json_def status_json_def
      split: option.splits if_splits)

lemma roblox_check_pv_expired:
  "truthy rid \<and> \<not> sv_insert_fails senv \<and> \<not> k_lookup_fails env \<and>
   k_now env - sv_now senv > 10 * 60 * 1000 \<longrightarrow>
     roblox_check_pv (env\<lparr>k_profile := p\<rparr>) (snd (start_verification_pv senv stp rid)) rid =
       (error_json 400 ''Verification code expired'', snd (start_verification_pv senv stp rid))"
proof (intro impI, elim conjE)
  assume a: "truthy rid" "\<not> sv_insert_fails senv" "\<not> k_lookup_fails env"
    "k_now env - sv_now senv > 10 * 60 * 1000"
  let ?e = "\<lparr>vk_roblox_id = store_text (bind rid), vk_code = sv_code senv,
             vk_expires_at = sv_now senv + 10 * 60 * 1000\<rparr>"
  from a(1) have "vk_roblox_id ?e \<noteq> None" by (simp add: truthy_store)
  from find_upsert_code [OF this, of "pv_verification_codes stp"]
  obtain r where r: "find (\<lambda>r. vk_roblox_id r \<noteq> None \<and> vk_roblox_id r = store_text (bind rid))
       (upsert_code ?e (pv_verification_codes stp)) = Some r"
    "vk_expires_at r = sv_now senv + 10 * 60 * 1000"
    by auto
  show "roblox_check_pv (env\<lparr>k_profile := p\<rparr>) (snd (start_verification_pv senv stp rid)) rid =
       (error_json 400 ''Verification code expired'', snd (start_verification_pv senv stp rid))"
    using a r by (simp add: roblox_check_pv_def start_verification_pv_def Let_def text_col_eq_store)
qed

lemma foldr_max_ge: "x \<in> set ids \<Longrightarrow> x \<le> foldr max ids (0::int)"
  by (induction ids) auto

lemma next_rowid_greater: "x \<in> set ids \<Longrightarrow> x < next_rowid ids"
  using foldr_max_ge [of x ids] by (simp add: next_rowid_def)

lemma latest_snoc: "\<forall>x \<in> set rows. vc_id x < vc_id r \<Longrightarrow> latest (rows @ [r]) = Some r"
  by (induction rows) auto

lemma latest_filter_snoc:
  "P r \<Longrightarrow> \<forall>x \<in> set rows. vc_id x < vc_id r \<Longrightarrow> latest (filter P (rows @ [r])) = Some r"
  using latest_snoc [of "filter P rows" r] by simp

lemma int_affinity_not_null: "p \<noteq> SqlNull \<Longrightarrow> int_affinity p \<noteq> SqlNull"
  by (cases p) (auto split: option.splits)

lemma truthy_bind: "truthy v \<Longrightarrow> bind v \<noteq> SqlNull"
  by (cases v) auto

text \<open>The code issued last is the one the next check reads.\<close>

lemma latest_code_after_start:
  assumes "truthy rid" "\<not> sv_insert_fails senv"
  shows "latest_code (snd (start_verification senv st rid)) rid =
    Some \<lparr>vc_id = next_rowid (map vc_id (verification_codes st)),
          vc_roblox_id = int_affinity (bind rid), vc_code = sv_code senv,
          vc_created_at = sv_now senv\<rparr>"
proof -
  have "affinity_col_eq (int_affinity (bind rid)) (bind rid)"
    using assms(1) by (simp add: affinity_col_eq_def int_affinity_not_null truthy_bind)
  moreover have "\<forall>x \<in> set (verification_codes st).
      vc_id x < next_rowid (map vc_id (verification_codes st))"
    by (simp add: next_rowid_greater)
  ultimately show ?thesis
    using assms
    by (simp add: latest_code_def start_verification_def Let_def latest_filter_snoc
        del: filter_append)
qed

text \<open>
  C4. For the challenge a check reads (the latest row for the identifier in the append-log
  variant, the row of the identifier in the keyed variant), a check made more than 10
  minutes after its issuance answers 400 "Verification code expired" and leaves the
  database as it was, whatever the profile fetch would have delivered: the expiry test
  comes before the fetch. The first part is about any stored challenge, the second and
  third about a challenge issued by start-verification in either variant.
\<close>

theorem check_after_window_expired:
  "(truthy rid \<and> \<not> ck_lookup_fails env \<and> latest_code st rid = Some row \<and>
    ck_now env - vc_created_at row > 10 * 60 * 1000 \<longrightarrow>
      roblox_check (env\<lparr>ck_profile := p\<rparr>) st rid =
        (error_json 400 ''Verification code expired'', st)) \<and>
   (truthy rid \<and> \<not> sv_insert_fails senv \<and> \<not> ck_lookup_fails env \<and>
    ck_now env - sv_now senv > 10 * 60 * 1000 \<longrightarrow>
      roblox_check (env\<lparr>ck_profile := p\<rparr>) (snd (start_verification senv st rid)) rid =
        (error_json 400 ''Verification code expired'', snd (start_verification senv st rid))) \<and>
   (truthy rid \<and> \<not> sv_insert_fails senv \<and> \<not> k_lookup_fails envp \<and>
    k_now envp - sv_now senv > 10 * 60 * 1000 \<longrightarrow>
      roblox_check_pv (envp\<lparr>k_profile := q\<rparr>) (snd (start_verification_pv senv stp rid)) rid =
        (error_json 400 ''Verification code expired'', snd (start_verification_pv senv stp rid)))"
proof (intro conjI)
  show "truthy rid \<and> \<not> ck_lookup_fails env \<and> latest_code st rid = Some row \<and>
    ck_now env - vc_created_at row > 10 * 60 * 1000 \<longrightarrow>
      roblox_check (env\<lparr>ck_profile := p\<rparr>) st rid =
        (error_json 400 ''Verification code expired'', st)"
    by (simp add: roblox_check_def isExpired_iff)
  show "truthy rid \<and> \<not> sv_insert_fails senv \<and> \<not> ck_lookup_fails env \<and>
    ck_now env - sv_now senv > 10 * 60 * 1000 \<longrightarrow>
      roblox_check (env\<lparr>ck_profile := p\<rparr>) (snd (start_verification senv st rid)) rid =
        (error_json 400 ''Verification code expired'', snd (start_verification senv st rid))"
    by (simp add: roblox_check_def isExpired_iff latest_code_after_start)
  show "truthy rid \<and> \<not> sv_insert_fails senv \<and> \<not> k_lookup_fails envp \<and>
    k_now envp - sv_now senv > 10 * 60 * 1000 \<longrightarrow>
      roblox_check_pv (envp\<lparr>k_profile := q\<rparr>) (snd (start_verification_pv senv stp rid)) rid =
        (error_json 400 ''Verification code expired'', snd (start_verification_pv senv stp rid))"
    by (rule roblox_check_pv_expired)
qed

theorem check_after_window_expired_witness:
  "roblox_check
     \<lparr>ck_now = 660000, ck_uuid = ''tok'', ck_lookup_fails = False,
       ck_profile = Replied (Some \<lparr>description = JStr ''hello USAFE-ABC123'', name = JStr ''bob'',
                                   displayName = JStr ''Bob''\<rparr>)\<rparr>
     \<lparr>users = [], trainings = [], training_attendees = [], admin_keys = [],
       verification_codes = [\<lparr>vc_id = 1, vc_roblox_id = SqlInt 77, vc_code = ''USAFE-ABC123'',
                               vc_created_at = 0\<rparr>],
       ADMIN_SESSIONS = Map.empty\<rparr> (JStr ''77'')
   = (error_json 400 ''Verification code expired'',
      \<lparr>users = [], trainings = [], training_attendees = [], admin_keys = [],
       verification_codes = [\<lparr>vc_id = 1, vc_roblox_id = SqlInt 77, vc_code = ''USAFE-ABC123'',
                               vc_created_at = 0\<rparr>],
       ADMIN_SESSIONS = Map.empty\<rparr>) \<and>
   fst (roblox_check_pv
     \<lparr>k_now = 660000, k_date_now = 660001, k_lookup_fails = False,
       k_profile = Replied (Some \<lparr>description = JStr ''hello USAFE-ABC123'', name = JStr ''bob'',
                                  displayName = JStr ''Bob''\<rparr>),
       k_insert = \<lparr>i_rowid = 1, i_created_at = 660000, i_fails = False\<rparr>, k_delete_fails = False\<rparr>
     (snd (start_verification_pv \<lparr>sv_code = ''USAFE-ABC123'', sv_now = 0, sv_insert_fails = False\<rparr>
        \<lparr>pv_users = [], pv_training_attendance = [], pv_verification_codes = []\<rparr> (JStr ''77'')))
     (JStr ''77''))
   = error_json 400 ''Verification code expired''"
  using check_after_window_expired [of "JStr ''77''"
      "\<lparr>ck_now = 660000, ck_uuid = ''tok'', ck_lookup_fails = False, ck_profile = Threw\<rparr>"
      "\<lparr>users = [], trainings = [], training_attendees = [], admin_keys = [],
       verification_codes = [\<lparr>vc_id = 1, vc_roblox_id = SqlInt 77, vc_code = ''USAFE-ABC123'',
                               vc_created_at = 0\<rparr>],
       ADMIN_SESSIONS = Map.empty\<rparr>"
      "\<lparr>vc_id = 1, vc_roblox_id = SqlInt 77, vc_code = ''USAFE-ABC123'', vc_created_at = 0\<rparr>"
      "Replied (Some \<lparr>description = JStr ''hello USAFE-ABC123'', name = JStr ''bob'',
                                   displayName = JStr ''Bob''\<rparr>)"
      "\<lparr>sv_code = ''USAFE-ABC123'', sv_now = 0, sv_insert_fails = False\<rparr>"
      "\<lparr>k_now = 660000, k_date_now = 660001, k_lookup_fails = False,
       k_profile = Threw,
       k_insert = \<lparr>i_rowid = 1, i_created_at = 660000, i_fails = False\<rparr>, k_delete_fails = False\<rparr>"
      "Replied (Some \<lparr>description = JStr ''hello USAFE-ABC123'', name = JStr ''bob'',
                                  displayName = JStr ''Bob''\<rparr>)"
      "\<lparr>pv_users = [], pv_training_attendance = [], pv_verification_codes = []\<rparr>"]
  by (simp add: eval_simps)

text \<open>
  C5. A check that does not succeed leaves the database, and with it the stored challenge,
  exactly as it was, so that any later check behaves as if the failed one had not happened.
  In particular a check that finds the profile text without the code answers 400 (code
  not found) and changes nothing. Both variants.
\<close>

theorem failed_check_keeps_challenge:
  "(status (fst (roblox_check env st rid)) \<noteq> 200 \<longrightarrow>
      snd (roblox_check env st rid) = st \<and>
      roblox_check env' (snd (roblox_check env st rid)) rid = roblox_check env' st rid) \<and>
   (truthy rid \<and> \<not> ck_lookup_fails env \<and> latest_code st rid = Some row \<and>
    \<not> isExpired (ck_now env) (vc_created_at row) \<and> ck_profile env = Replied (Some prof) \<and>
    bio_of (description prof) = Some bio \<and> \<not> str_includes bio (vc_code row) \<longrightarrow>
      roblox_check env st rid = (error_json 400 ''Verification code not found in bio'', st)) \<and>
   (status (fst (roblox_check_pv envp stp rid)) \<noteq> 200 \<longrightarrow>
      snd (roblox_check_pv envp stp rid) = stp \<and>
      roblox_check_pv envp' (snd (roblox_check_pv envp stp rid)) rid = roblox_check_pv envp' stp rid) \<and>
   (truthy rid \<and> \<not> k_lookup_fails envp \<and>
    find (\<lambda>r. text_col_eq (vk_roblox_id r) (bind rid)) (pv_verification_codes stp) = Some rowp \<and>
    \<not> vk_expires_at rowp < k_now envp \<and> k_profile envp = Replied (Some prof) \<and>
    bio_of (description prof) = Some bio \<and> \<not> str_includes bio (vk_code rowp) \<longrightarrow>
      roblox_check_pv envp stp rid = (error_json 400 ''Code not found in Roblox bio'', stp))"
  by (simp add: roblox_check_readonly roblox_check_pv_failure)
     (simp add: roblox_check_def roblox_check_pv_def Let_def)

theorem failed_check_keeps_challenge_witness:
  "roblox_check
     \<lparr>ck_now = 60000, ck_uuid = ''tok'', ck_lookup_fails = False,
       ck_profile = Replied (Some \<lparr>description = JStr ''just me'', name = JStr ''bob'',
                                   displayName = JStr ''Bob''\<rparr>)\<rparr>
     \<lparr>users = [], trainings = [], training_attendees = [], admin_keys = [],
       verification_codes = [\<lparr>vc_id = 1, vc_roblox_id = SqlInt 77, vc_code = ''USAFE-ABC123'',
                               vc_created_at = 0\<rparr>],
       ADMIN_SESSIONS = Map.empty\<rparr> (JStr ''77'')
   = (error_json 400 ''Verification code not found in bio'',
      \<lparr>users = [], trainings = [], training_attendees = [], admin_keys = [],
       verification_codes = [\<lparr>vc_id = 1, vc_roblox_id = SqlInt 77, vc_code = ''USAFE-ABC123'',
                               vc_created_at = 0\<rparr>],
       ADMIN_SESSIONS = Map.empty\<rparr>) \<and>
   roblox_check_pv
     \<lparr>k_now = 60000, k_date_now = 60001, k_lookup_fails = False,
       k_profile = Replied (Some \<lparr>description = JStr ''just me'', name = JStr ''bob'',
                                  displayName = JStr ''Bob''\<rparr>),
       k_insert = \<lparr>i_rowid = 1, i_created_at = 60000, i_fails = False\<rparr>, k_delete_fails = False\<rparr>
     \<lparr>pv_users = [], pv_training_attendance = [],
       pv_verification_codes = [\<lparr>vk_roblox_id = Some ''77'', vk_code = ''USAFE-ABC123'',
                                  vk_expires_at = 600000\<rparr>]\<rparr>
     (JStr ''77'')
   = (error_json 400 ''Code not found in Roblox bio'',
      \<lparr>pv_users = [], pv_training_attendance = [],
       pv_verification_codes = [\<lparr>vk_roblox_id = Some ''77'', vk_code = ''USAFE-ABC123'',
                                  vk_expires_at = 600000\<rparr>]\<rparr>) \<and>
   status (fst (roblox_check_pv
     \<lparr>k_now = 120000, k_date_now = 120001, k_lookup_fails = False,
       k_profile = Replied (Some \<lparr>description = JStr ''me USAFE-ABC123'', name = JStr ''bob'',
                                  displayName = JStr ''Bob''\<rparr>),
       k_insert = \<lparr>i_rowid = 1, i_created_at = 120000, i_fails = False\<rparr>, k_delete_fails = False\<rparr>
     (snd (roblox_check_pv
       \<lparr>k_now = 60000, k_date_now = 60001, k_lookup_fails = False,
         k_profile = Replied (Some \<lparr>description = JStr ''just me'', name = JStr ''bob'',
                                    displayName = JStr ''Bob''\<rparr>),
         k_insert = \<lparr>i_rowid = 1, i_created_at = 60000, i_fails = False\<rparr>, k_delete_fails = False\<rparr>
       \<lparr>pv_users = [], pv_training_attendance = [],
         pv_verification_codes = [\<lparr>vk_roblox_id = Some ''77'', vk_code = ''USAFE-ABC123'',
                                    vk_expires_at = 600000\<rparr>]\<rparr>
       (JStr ''77'')))
     (JStr ''77''))) = 200"
  using failed_check_keeps_challenge [of
     "\<lparr>ck_now = 60000, ck_uuid = ''tok'', ck_lookup_fails = False,
       ck_profile = Replied (Some \<lparr>description = JStr ''just me'', name = JStr ''bob'',
                                   displayName = JStr ''Bob''\<rparr>)\<rparr>"
     "\<lparr>users = [], trainings = [], training_attendees = [], admin_keys = [],
       verification_codes = [\<lparr>vc_id = 1, vc_roblox_id = SqlInt 77, vc_code = ''USAFE-ABC123'',
                               vc_created_at = 0\<rparr>],
       ADMIN_SESSIONS = Map.empty\<rparr>"
     "JStr ''77''" _
     "\<lparr>vc_id = 1, vc_roblox_id = SqlInt 77, vc_code = ''USAFE-ABC123'', vc_created_at = 0\<rparr>"
     "\<lparr>description = JStr ''just me'', name = JStr ''bob'', displayName = JStr ''Bob''\<rparr>"
     "''just me''"
     "\<lparr>k_now = 60000, k_date_now = 60001, k_lookup_fails = False,
       k_profile = Replied (Some \<lparr>description = JStr ''just me'', name = JStr ''bob'',
                                  displayName = JStr ''Bob''\<rparr>),
       k_insert = \<lparr>i_rowid = 1, i_created_at = 60000, i_fails = False\<rparr>, k_delete_fails = False\<rparr>"
     "\<lparr>pv_users = [], pv_training_attendance = [],
       pv_verification_codes = [\<lparr>vk_roblox_id = Some ''77'', vk_code = ''USAFE-ABC123'',
                                  vk_expires_at = 600000\<rparr>]\<rparr>"
     "\<lparr>k_now = 120000, k_date_now = 120001, k_lookup_fails = False,
       k_profile = Replied (Some \<lparr>description = JStr ''me USAFE-ABC123'', name = JStr ''bob'',
                                  displayName = JStr ''Bob''\<rparr>),
       k_insert = \<lparr>i_rowid = 1, i_created_at = 120000, i_fails = False\<rparr>, k_delete_fails = False\<rparr>"
     "\<lparr>vk_roblox_id = Some ''77'', vk_code = ''USAFE-ABC123'', vk_expires_at = 600000\<rparr>"]
  by (simp add: eval_simps isExpired_iff) (simp add: roblox_check_pv_def eval_simps)





section \<open>Properties of member resolution\<close>










section \<open>Properties of the member upsert\<close>

lemma upsert_user_existing:
  "p_roblox_id m \<noteq> None \<Longrightarrow> p_roblox_id e = p_roblox_id m \<Longrightarrow>
   \<forall>r \<in> set before. p_roblox_id r \<noteq> p_roblox_id m \<Longrightarrow>
   upsert_user upd e (before @ m # after) = before @ upd m e # after"
  by (induction before) auto

lemma find_first_match:
  "P m \<Longrightarrow> \<forall>r \<in> set before. \<not> P r \<Longrightarrow> find P (before @ m # after) = Some m"
  by (induction before) auto

text \<open>
  C6 (as amended). For an existing member, the first row holding the external id (the only
  one, the column being UNIQUE): the upsert of a successful keyed-variant check overwrites
  its username and display name and nothing else, every other column of the member and
  every other row staying as they were; the upsert of POST /api/users overwrites username,
  display name, branch and rank, leaving the numeric counters, the ids and the creation
  time untouched; \<open>ensureUserByRobloxProfile\<close> returns the member and changes nothing.
  The member is the one whose stored external id is the text the column holds for the
  identifier of the request (for a number outside the 32-bit range, the digits with a
  trailing \<open>.0\<close>); the identifier and the values written are any values whose text the model
  gives exactly (\<open>plain\<close>).
\<close>

theorem upsert_existing_member_frame:
  "(status (fst (roblox_check_pv env st rid)) = 200 \<and> k_profile env = Replied (Some userData) \<and>
    \<not> i_fails (k_insert env) \<and> pv_users st = before @ m # after \<and>
    p_roblox_id m = store_text (bind rid) \<and>
    (\<forall>r \<in> set before. p_roblox_id r \<noteq> p_roblox_id m) \<and>
    plain rid \<and> plain (name userData) \<and> plain (displayName userData) \<longrightarrow>
      pv_users (snd (roblox_check_pv env st rid)) =
        before @ m\<lparr>p_username := store_text (bind (name userData)),
                     p_display_name := store_text (bind (displayName userData))\<rparr> # after) \<and>
   (\<not> i_fails ienv \<and> pv_users st = before @ m # after \<and>
    p_roblox_id m = store_text (bind rid) \<and> bind rid \<noteq> SqlNull \<and>
    (\<forall>r \<in> set before. p_roblox_id r \<noteq> p_roblox_id m) \<and>
    plain rid \<and> plain username \<and> plain display_name \<and> plain branch \<and> plain rank \<longrightarrow>
      pv_users (snd (post_users ienv st rid username display_name branch rank)) =
        before @ m\<lparr>p_username := store_text (bind username),
                     p_display_name := store_text (bind display_name),
                     p_branch := store_text (bind branch),
                     p_rank := store_text (bind rank)\<rparr> # after) \<and>
   (\<not> e_select_fails eenv \<and> users sst = ubefore @ um # uafter \<and>
    u_roblox_id um = store_text (bind rid) \<and> bind rid \<noteq> SqlNull \<and>
    (\<forall>r \<in> set ubefore. u_roblox_id r \<noteq> u_roblox_id um) \<and> plain rid \<longrightarrow>
      ensureUserByRobloxProfile eenv sst rid username display_name = (DbOk (Some um), sst))"
proof (intro conjI impI; elim conjE)
  assume a: "status (fst (roblox_check_pv env st rid)) = 200" "k_profile env = Replied (Some userData)"
    "\<not> i_fails (k_insert env)" "pv_users st = before @ m # after"
    "p_roblox_id m = store_text (bind rid)" "\<forall>r \<in> set before. p_roblox_id r \<noteq> p_roblox_id m"
  note s = roblox_check_pv_success [OF a(1,2)]
  from s(2) a(5) have "p_roblox_id m \<noteq> None" by (simp add: truthy_store)
  then show "pv_users (snd (roblox_check_pv env st rid)) =
        before @ m\<lparr>p_username := store_text (bind (name userData)),
                     p_display_name := store_text (bind (displayName userData))\<rparr> # after"
    using a(3-6)
    by (simp add: s(1) delete_code_def upsert_member_def upsert_user_existing set_profile_def)
next
  assume a: "\<not> i_fails ienv" "pv_users st = before @ m # after"
    "p_roblox_id m = store_text (bind rid)" "bind rid \<noteq> SqlNull"
    "\<forall>r \<in> set before. p_roblox_id r \<noteq> p_roblox_id m"
  from a(3,4) have "p_roblox_id m \<noteq> None" by (cases "bind rid") auto
  then show "pv_users (snd (post_users ienv st rid username display_name branch rank)) =
        before @ m\<lparr>p_username := store_text (bind username),
                     p_display_name := store_text (bind display_name),
                     p_branch := store_text (bind branch),
                     p_rank := store_text (bind rank)\<rparr> # after"
    using a by (simp add: post_users_def upsert_user_existing set_profile_branch_rank_def)
next
  assume a: "\<not> e_select_fails eenv" "users sst = ubefore @ um # uafter"
    "u_roblox_id um = store_text (bind rid)" "bind rid \<noteq> SqlNull"
    "\<forall>r \<in> set ubefore. u_roblox_id r \<noteq> u_roblox_id um"
  from a(3,4) have "text_col_eq (u_roblox_id um) (bind rid)"
    by (cases "bind rid") (auto simp: text_col_eq_store)
  moreover from a(3,5) have "\<forall>r \<in> set ubefore. \<not> text_col_eq (u_roblox_id r) (bind rid)"
    by (simp add: text_col_eq_store)
  ultimately have "find (\<lambda>r. text_col_eq (u_roblox_id r) (bind rid)) (ubefore @ um # uafter) = Some um"
    by (rule find_first_match)
  with a(1,2)
  show "ensureUserByRobloxProfile eenv sst rid username display_name = (DbOk (Some um), sst)"
    by (simp add: ensureUserByRobloxProfile_def)
qed

theorem upsert_existing_member_frame_witness:
  "pv_users (snd (roblox_check_pv
     \<lparr>k_now = 60000, k_date_now = 60001, k_lookup_fails = False,
       k_profile = Replied (Some \<lparr>description = JStr ''me USAFE-ABC123'', name = JStr ''bob'',
                                  displayName = JStr ''Bob''\<rparr>),
       k_insert = \<lparr>i_rowid = 2, i_created_at = 60000, i_fails = False\<rparr>, k_delete_fails = False\<rparr>
     \<lparr>pv_users = [\<lparr>p_id = 1, p_roblox_id = Some ''77'', p_username = Some ''old'',
                     p_display_name = Some ''Old'', p_branch = Some ''Army'', p_rank = Some ''Captain'',
                     p_points = 5, p_valor = 2, p_created_at = 10\<rparr>], pv_training_attendance = [],
       pv_verification_codes = [\<lparr>vk_roblox_id = Some ''77'', vk_code = ''USAFE-ABC123'',
                                  vk_expires_at = 600000\<rparr>]\<rparr>
     (JStr ''77'')))
   = [\<lparr>p_id = 1, p_roblox_id = Some ''77'', p_username = Some ''bob'',
       p_display_name = Some ''Bob'', p_branch = Some ''Army'', p_rank = Some ''Captain'',
       p_points = 5, p_valor = 2, p_created_at = 10\<rparr>] \<and>
   ensureUserByRobloxProfile
     \<lparr>e_select_fails = False, e_insert_fails = False, e_reselect_fails = False, e_created_at = 5\<rparr>
     \<lparr>users = [\<lparr>u_id = 1, u_roblox_id = Some ''77'', u_username = Some ''old'',
                 u_display_name = Some ''Old'', u_rank = Some ''Captain'', u_combat_points = 4,
                 u_created_at = 0\<rparr>],
       trainings = [], training_attendees = [], admin_keys = [], verification_codes = [],
       ADMIN_SESSIONS = Map.empty\<rparr> (JStr ''77'') (JStr ''bob'') (JStr ''Bob'')
   = (DbOk (Some \<lparr>u_id = 1, u_roblox_id = Some ''77'', u_username = Some ''old'',
                 u_display_name = Some ''Old'', u_rank = Some ''Captain'', u_combat_points = 4,
                 u_created_at = 0\<rparr>),
      \<lparr>users = [\<lparr>u_id = 1, u_roblox_id = Some ''77'', u_username = Some ''old'',
                 u_display_name = Some ''Old'', u_rank = Some ''Captain'', u_combat_points = 4,
                 u_created_at = 0\<rparr>],
       trainings = [], training_attendees = [], admin_keys = [], verification_codes = [],
       ADMIN_SESSIONS = Map.empty\<rparr>) \<and>
   pv_users (snd (post_users \<lparr>i_rowid = 3, i_created_at = 99, i_fails = False\<rparr>
     \<lparr>pv_users = [\<lparr>p_id = 1, p_roblox_id = Some ''3000000000'', p_username = Some ''old'',
                     p_display_name = Some ''Old'', p_branch = Some ''Army'', p_rank = Some ''Captain'',
                     p_points = 5, p_valor = 2, p_created_at = 10\<rparr>,
                   \<lparr>p_id = 2, p_roblox_id = Some ''3000000000.0'', p_username = Some ''ann'',
                     p_display_name = Some ''Ann'', p_branch = Some ''Navy'', p_rank = Some ''Major'',
                     p_points = 7, p_valor = 1, p_created_at = 20\<rparr>],
       pv_training_attendance = [], pv_verification_codes = []\<rparr>
     (JNum 3000000000) (JStr ''bob'') (JStr ''Bob'') (JStr ''Army'') (JStr ''Private'')))
   = [\<lparr>p_id = 1, p_roblox_id = Some ''3000000000'', p_username = Some ''old'',
       p_display_name = Some ''Old'', p_branch = Some ''Army'', p_rank = Some ''Captain'',
       p_points = 5, p_valor = 2, p_created_at = 10\<rparr>,
      \<lparr>p_id = 2, p_roblox_id = Some ''3000000000.0'', p_username = Some ''bob'',
       p_display_name = Some ''Bob'', p_branch = Some ''Army'', p_rank = Some ''Private'',
       p_points = 7, p_valor = 1, p_created_at = 20\<rparr>]"
  using upsert_existing_member_frame [of
     "\<lparr>k_now = 60000, k_date_now = 60001, k_lookup_fails = False,
       k_profile = Replied (Some \<lparr>description = JStr ''me USAFE-ABC123'', name = JStr ''bob'',
                                  displayName = JStr ''Bob''\<rparr>),
       k_insert = \<lparr>i_rowid = 2, i_created_at = 60000, i_fails = False\<rparr>, k_delete_fails = False\<rparr>"
     "\<lparr>pv_users = [\<lparr>p_id = 1, p_roblox_id = Some ''77'', p_username = Some ''old'',
                     p_display_name = Some ''Old'', p_branch = Some ''Army'', p_rank = Some ''Captain'',
                     p_points = 5, p_valor = 2, p_created_at = 10\<rparr>], pv_training_attendance = [],
       pv_verification_codes = [\<lparr>vk_roblox_id = Some ''77'', vk_code = ''USAFE-ABC123'',
                                  vk_expires_at = 600000\<rparr>]\<rparr>"
     "JStr ''77''"
     "\<lparr>description = JStr ''me USAFE-ABC123'', name = JStr ''bob'', displayName = JStr ''Bob''\<rparr>"
     "[]"
     "\<lparr>p_id = 1, p_roblox_id = Some ''77'', p_username = Some ''old'',
                     p_display_name = Some ''Old'', p_branch = Some ''Army'', p_rank = Some ''Captain'',
                     p_points = 5, p_valor = 2, p_created_at = 10\<rparr>"
     "[]"
     "\<lparr>i_rowid = 2, i_created_at = 60000, i_fails = False\<rparr>"
     "JStr ''bob''" "JStr ''Bob''" _ _
     "\<lparr>e_select_fails = False, e_insert_fails = False, e_reselect_fails = False, e_created_at = 5\<rparr>"
     "\<lparr>users = [\<lparr>u_id = 1, u_roblox_id = Some ''77'', u_username = Some ''old'',
                 u_display_name = Some ''Old'', u_rank = Some ''Captain'', u_combat_points = 4,
                 u_created_at = 0\<rparr>],
       trainings = [], training_attendees = [], admin_keys = [], verification_codes = [],
       ADMIN_SESSIONS = Map.empty\<rparr>"
     "[]"
     "\<lparr>u_id = 1, u_roblox_id = Some ''77'', u_username = Some ''old'',
                 u_display_name = Some ''Old'', u_rank = Some ''Captain'', u_combat_points = 4,
                 u_created_at = 0\<rparr>"
     "[]"]
    upsert_existing_member_frame [of _
     "\<lparr>pv_users = [\<lparr>p_id = 1, p_roblox_id = Some ''3000000000'', p_username = Some ''old'',
                     p_display_name = Some ''Old'', p_branch = Some ''Army'', p_rank = Some ''Captain'',
                     p_points = 5, p_valor = 2, p_created_at = 10\<rparr>,
                   \<lparr>p_id = 2, p_roblox_id = Some ''3000000000.0'', p_username = Some ''ann'',
                     p_display_name = Some ''Ann'', p_branch = Some ''Navy'', p_rank = Some ''Major'',
                     p_points = 7, p_valor = 1, p_created_at = 20\<rparr>],
       pv_training_attendance = [], pv_verification_codes = []\<rparr>"
     "JNum 3000000000" _
     "[\<lparr>p_id = 1, p_roblox_id = Some ''3000000000'', p_username = Some ''old'',
                     p_display_name = Some ''Old'', p_branch = Some ''Army'', p_rank = Some ''Captain'',
                     p_points = 5, p_valor = 2, p_created_at = 10\<rparr>]"
     "\<lparr>p_id = 2, p_roblox_id = Some ''3000000000.0'', p_username = Some ''ann'',
                     p_display_name = Some ''Ann'', p_branch = Some ''Navy'', p_rank = Some ''Major'',
                     p_points = 7, p_valor = 1, p_created_at = 20\<rparr>"
     "[]"
     "\<lparr>i_rowid = 3, i_created_at = 99, i_fails = False\<rparr>"
     "JStr ''bob''" "JStr ''Bob''" "JStr ''Army''" "JStr ''Private''"]
  by (simp add: roblox_check_pv_def eval_simps upsert_member_def delete_code_def set_profile_def
      show_simps plain_def)

text \<open>
  POST /api/users on an existing member replaces its rank (and branch) by the ones of the
  request: the captain of the example becomes a private.
\<close>

theorem post_users_overwrites_rank_counterexample:
  "pv_users (snd (post_users \<lparr>i_rowid = 2, i_created_at = 99, i_fails = False\<rparr>
     \<lparr>pv_users = [\<lparr>p_id = 1, p_roblox_id = Some ''77'', p_username = Some ''old'',
                     p_display_name = Some ''Old'', p_branch = Some ''Army'', p_rank = Some ''Captain'',
                     p_points = 5, p_valor = 2, p_created_at = 10\<rparr>],
       pv_training_attendance = [], pv_verification_codes = []\<rparr>
     (JStr ''77'') (JStr ''bob'') (JStr ''Bob'') (JStr ''Navy'') (JStr ''Private'')))
   = [\<lparr>p_id = 1, p_roblox_id = Some ''77'', p_username = Some ''bob'',
       p_display_name = Some ''Bob'', p_branch = Some ''Navy'', p_rank = Some ''Private'',
       p_points = 5, p_valor = 2, p_created_at = 10\<rparr>]"
  by (simp add: post_users_def set_profile_branch_rank_def)

section \<open>Properties of attendee recording\<close>

lemma int_length_sum_zero:
  "int (length xs) + int (length ys) = 0 \<longleftrightarrow> xs = [] \<and> ys = []"
proof -
  have "int (length xs) + int (length ys) = int (length xs + length ys)" by simp
  also have "\<dots> = 0 \<longleftrightarrow> length xs + length ys = 0" by (simp only: of_nat_eq_0_iff)
  finally show ?thesis by simp
qed

text \<open>
  The \<open>forEach\<close> over entries none of which raises: the truthy ones are left outstanding and
  a response is sent only when no entry is truthy.
\<close>

lemma for_each_attendee_result:
  "\<forall>a \<in> set as. entry_truthy a \<longrightarrow> to_string a \<noteq> None \<Longrightarrow>
   pending run = int (length as) + int (length (outstanding run)) \<Longrightarrow>
   outstanding (for_each_attendee as run) = outstanding run @ filter entry_truthy as \<and>
   pending (for_each_attendee as run) = int (length (outstanding run @ filter entry_truthy as)) \<and>
   run_db (for_each_attendee as run) = run_db run \<and>
   sent (for_each_attendee as run) =
     (if as \<noteq> [] \<and> outstanding run @ filter entry_truthy as = []
      then sent run @ [json [(''success'', JBool True)]] else sent run)"
proof (induction as arbitrary: run)
  case Nil
  then show ?case by simp
next
  case (Cons rawId rest)
  from Cons.prems(1) have nr: "\<forall>a \<in> set rest. entry_truthy a \<longrightarrow> to_string a \<noteq> None" by simp
  show ?case
  proof (cases "entry_truthy rawId")
    case True
    with Cons.prems(1) obtain str where str: "to_string rawId = Some str" by auto
    let ?run = "run\<lparr>outstanding := outstanding run @ [rawId]\<rparr>"
    have "pending ?run = int (length rest) + int (length (outstanding ?run))"
      using Cons.prems(2) by simp
    from Cons.IH [OF nr this] True str show ?thesis by simp
  next
    case False
    let ?run = "skip_entry run"
    have p: "pending ?run = int (length rest) + int (length (outstanding run))"
      and o: "outstanding ?run = outstanding run" and d: "run_db ?run = run_db run"
      and s: "sent ?run = (if rest = [] \<and> outstanding run = []
                then sent run @ [json [(''success'', JBool True)]] else sent run)"
      using Cons.prems(2) by (auto simp: skip_entry_def hadError_def Let_def int_length_sum_zero)
    from p o have "pending ?run = int (length rest) + int (length (outstanding ?run))" by simp
    from Cons.IH [OF nr this] False o d s show ?thesis by (cases rest) auto
  qed
qed

text \<open>
  The \<open>forEach\<close> over a list with an entry that raises: the entries before it are handled,
  Express answers, and the entries after it are not visited.
\<close>

lemma for_each_attendee_raise:
  "\<forall>a \<in> set pre. entry_truthy a \<longrightarrow> to_string a \<noteq> None \<Longrightarrow>
   entry_truthy x \<Longrightarrow> to_string x = None \<Longrightarrow>
   pending run = int (length (pre @ x # post)) + int (length (outstanding run)) \<Longrightarrow>
   for_each_attendee (pre @ x # post) run =
     run\<lparr>pending := int (length (outstanding run @ filter entry_truthy pre)) + 1 + int (length post),
         sent := sent run @ [express_error],
         outstanding := outstanding run @ filter entry_truthy pre\<rparr>"
proof (induction pre arbitrary: run)
  case Nil
  then show ?case by simp
next
  case (Cons rawId rest)
  from Cons.prems(1) have nr: "\<forall>a \<in> set rest. entry_truthy a \<longrightarrow> to_string a \<noteq> None" by simp
  show ?case
  proof (cases "entry_truthy rawId")
    case True
    with Cons.prems(1) obtain str where str: "to_string rawId = Some str" by auto
    let ?run = "run\<lparr>outstanding := outstanding run @ [rawId]\<rparr>"
    have "pending ?run = int (length (rest @ x # post)) + int (length (outstanding ?run))"
      using Cons.prems(4) by simp
    from Cons.IH [OF nr Cons.prems(2,3) this] True str show ?thesis by simp
  next
    case False
    have sk: "skip_entry run = run\<lparr>pending := pending run - 1\<rparr>"
      using Cons.prems(4) by (simp add: skip_entry_def Let_def)
    let ?run = "run\<lparr>pending := pending run - 1\<rparr>"
    have "pending ?run = int (length (rest @ x # post)) + int (length (outstanding ?run))"
      using Cons.prems(4) by simp
    from Cons.IH [OF nr Cons.prems(2,3) this] False sk show ?thesis by simp
  qed
qed

lemma resolved_entry_pending:
  "pending (resolved_entry env tid rawId run) = pending run - 1"
  by (simp add: resolved_entry_def Let_def split: sum.splits)

lemma resolved_entry_sent:
  "sent (resolved_entry env tid rawId run) =
     (if pending run - 1 = 0
      then sent run @ [if a_finalize_fails env then error_json 500 ''Failed to add attendees''
                       else json [(''success'', JBool True)]]
      else sent run)"
  by (simp add: resolved_entry_def Let_def hadError_def split: sum.splits)

lemma run_callbacks_sent:
  "pending run = int (length q) \<Longrightarrow>
   sent (run_callbacks env tid q run) =
     (if q = [] then sent run
      else sent run @ [if a_finalize_fails env then error_json 500 ''Failed to add attendees''
                       else json [(''success'', JBool True)]])"
proof (induction q arbitrary: run)
  case Nil
  then show ?case by simp
next
  case (Cons rawId rest)
  have "pending (resolved_entry env tid rawId run) = int (length rest)"
    using Cons.prems by (simp add: resolved_entry_pending)
  from Cons.IH [OF this] Cons.prems show ?case
    by (cases rest) (simp_all add: resolved_entry_sent)
qed

text \<open>While more entries are counted than callbacks are outstanding, no callback answers.\<close>

lemma run_callbacks_no_send:
  "int (length q) < pending run \<Longrightarrow> sent (run_callbacks env tid q run) = sent run"
proof (induction q arbitrary: run)
  case Nil
  then show ?case by simp
next
  case (Cons rawId rest)
  have "int (length rest) < pending (resolved_entry env tid rawId run)"
    using Cons.prems by (simp add: resolved_entry_pending)
  from Cons.IH [OF this] Cons.prems show ?case
    by (simp add: resolved_entry_sent)
qed

lemma resolve_users_only:
  "pv_users st = pv_users st' \<Longrightarrow>
   fst (resolveInternalUserId cast drv pl f st v) = fst (resolveInternalUserId cast drv pl f st' v)"
  by (simp add: resolveInternalUserId_def split: option.splits)

lemma resolved_entry_users:
  "pv_users (run_db (resolved_entry env tid rawId run)) = pv_users (run_db run)"
  by (simp add: resolved_entry_def Let_def record_attendance_def split: sum.splits)

lemma resolved_entry_codes:
  "pv_verification_codes (run_db (resolved_entry env tid rawId run)) = pv_verification_codes (run_db run)"
  by (simp add: resolved_entry_def Let_def record_attendance_def split: sum.splits)

lemma resolved_entry_mono:
  "set (pv_training_attendance (run_db run)) \<subseteq>
   set (pv_training_attendance (run_db (resolved_entry env tid rawId run)))"
  by (auto simp: resolved_entry_def Let_def record_attendance_def split: sum.splits)

lemma resolved_entry_records:
  "fst (resolveInternalUserId (a_cast env) (a_bind_other env) (a_plan env) (a_lookup_fails env rawId)
         (run_db run) rawId) = Inr uid \<Longrightarrow>
   \<exists>row \<in> set (pv_training_attendance (run_db (resolved_entry env tid rawId run))).
     at_user_id row = uid \<and> at_training_id row = int_affinity (SqlText tid)"
  by (simp add: resolved_entry_def Let_def record_attendance_def)

text \<open>What the callbacks do to the database does not depend on the counter.\<close>

lemma resolved_entry_db:
  "run_db run = run_db run' \<Longrightarrow>
   run_db (resolved_entry env tid rawId run) = run_db (resolved_entry env tid rawId run')"
  by (simp add: resolved_entry_def Let_def split: sum.splits)

lemma run_callbacks_db:
  "run_db run = run_db run' \<Longrightarrow>
   run_db (run_callbacks env tid q run) = run_db (run_callbacks env tid q run')"
proof (induction q arbitrary: run run')
  case Nil
  then show ?case by simp
next
  case (Cons rawId rest)
  from Cons.IH [OF resolved_entry_db [OF Cons.prems]] show ?case by simp
qed

lemma run_callbacks_users:
  "pv_users (run_db (run_callbacks env tid q run)) = pv_users (run_db run)"
  by (induction q arbitrary: run) (simp_all add: resolved_entry_users)

lemma run_callbacks_codes:
  "pv_verification_codes (run_db (run_callbacks env tid q run)) = pv_verification_codes (run_db run)"
  by (induction q arbitrary: run) (simp_all add: resolved_entry_codes)

lemma run_callbacks_mono:
  "set (pv_training_attendance (run_db run)) \<subseteq>
   set (pv_training_attendance (run_db (run_callbacks env tid q run)))"
proof (induction q arbitrary: run)
  case Nil
  then show ?case by simp
next
  case (Cons rawId rest)
  from resolved_entry_mono [of run env tid rawId] Cons [of "resolved_entry env tid rawId run"]
  show ?case by auto
qed

lemma run_callbacks_records:
  "a \<in> set q \<Longrightarrow>
   fst (resolveInternalUserId (a_cast env) (a_bind_other env) (a_plan env) (a_lookup_fails env a)
         (run_db run) a) = Inr uid \<Longrightarrow>
   \<exists>row \<in> set (pv_training_attendance (run_db (run_callbacks env tid q run))).
     at_user_id row = uid \<and> at_training_id row = int_affinity (SqlText tid)"
proof (induction q arbitrary: run)
  case Nil
  then show ?case by simp
next
  case (Cons rawId rest)
  let ?run = "resolved_entry env tid rawId run"
  show ?case
  proof (cases "a = rawId")
    case True
    with Cons.prems(2) obtain row where
      "row \<in> set (pv_training_attendance (run_db ?run))"
      "at_user_id row = uid \<and> at_training_id row = int_affinity (SqlText tid)"
      using resolved_entry_records [of env rawId run uid tid] by auto
    with run_callbacks_mono [of ?run env tid rest] show ?thesis by auto
  next
    case False
    with Cons.prems(1) have "a \<in> set rest" by simp
    moreover have "fst (resolveInternalUserId (a_cast env) (a_bind_other env) (a_plan env)
        (a_lookup_fails env a) (run_db ?run) a) = Inr uid"
      using Cons.prems(2) resolve_users_only [OF resolved_entry_users [of env tid rawId run]]
      by simp
    ultimately show ?thesis using Cons.IH [of ?run] by simp
  qed
qed

lemma post_attendees_pv_unfold:
  assumes "as \<noteq> []" "\<forall>a \<in> set as. entry_truthy a \<longrightarrow> to_string a \<noteq> None"
  shows "post_attendees_pv env stp tid (Some as) =
     (let run = run_callbacks env tid (a_delivery env (filter entry_truthy as))
                  (\<lparr>pending = int (length (filter entry_truthy as)),
                    sent = (if filter entry_truthy as = [] then [json [(''success'', JBool True)]] else []),
                    outstanding = [], run_db = stp\<rparr>)
      in (sent run, run_db run))"
proof -
  let ?run0 = "\<lparr>pending = int (length as), sent = [], outstanding = [], run_db = stp\<rparr>"
  have "pending ?run0 = int (length as) + int (length (outstanding ?run0))" by simp
  from for_each_attendee_result [OF assms(2) this] assms(1)
  have "for_each_attendee as ?run0\<lparr>outstanding := []\<rparr> =
        \<lparr>pending = int (length (filter entry_truthy as)),
         sent = (if filter entry_truthy as = [] then [json [(''success'', JBool True)]] else []),
         outstanding = [], run_db = stp\<rparr>"
    and "outstanding (for_each_attendee as ?run0) = filter entry_truthy as"
    by (cases "for_each_attendee as ?run0"; simp)+
  with assms(1) show ?thesis
    by (simp add: post_attendees_pv_def Let_def)
qed

text \<open>
  For every non-empty attendee list none of whose entries raises, and every order in which
  the driver delivers the callbacks, the resolving variant sends exactly one response (the
  success response unless finalising the statement fails), records every entry that
  resolves to a member under the member's internal id and the given training, keeps what
  was recorded before and touches no member; an entry that does not resolve is passed
  over.
\<close>

lemma attendees_without_raise:
  assumes "as \<noteq> []" "\<forall>a \<in> set as. entry_truthy a \<longrightarrow> to_string a \<noteq> None"
    and "mset (a_delivery env (filter entry_truthy as)) = mset (filter entry_truthy as)"
  shows "\<exists>resp. fst (post_attendees_pv env stp tid (Some as)) = [resp] \<and>
           (\<not> a_finalize_fails env \<longrightarrow> resp = json [(''success'', JBool True)])"
    and "a \<in> set as \<Longrightarrow> entry_truthy a \<Longrightarrow>
         fst (resolveInternalUserId (a_cast env) (a_bind_other env) (a_plan env)
               (a_lookup_fails env a) stp a) = Inr uid \<Longrightarrow>
         \<exists>row \<in> set (pv_training_attendance (snd (post_attendees_pv env stp tid (Some as)))).
           at_user_id row = uid \<and> at_training_id row = int_affinity (SqlText tid)"
    and "set (pv_training_attendance stp) \<subseteq>
           set (pv_training_attendance (snd (post_attendees_pv env stp tid (Some as))))"
    and "pv_users (snd (post_attendees_pv env stp tid (Some as))) = pv_users stp"
proof -
  let ?q = "filter entry_truthy as"
  let ?run1 = "\<lparr>pending = int (length ?q),
                sent = (if ?q = [] then [json [(''success'', JBool True)]] else []),
                outstanding = [], run_db = stp\<rparr>"
  note u = post_attendees_pv_unfold [OF assms(1,2)]
  from assms(3) have len: "length (a_delivery env ?q) = length ?q"
    by (rule mset_eq_length)
  from assms(3) have mem: "set (a_delivery env ?q) = set ?q"
    by (rule mset_eq_setD)
  from len have e: "a_delivery env ?q = [] \<longleftrightarrow> ?q = []" by (metis length_0_conv)
  have p: "pending ?run1 = int (length (a_delivery env ?q))" using len by simp
  show "\<exists>resp. fst (post_attendees_pv env stp tid (Some as)) = [resp] \<and>
           (\<not> a_finalize_fails env \<longrightarrow> resp = json [(''success'', JBool True)])"
    using run_callbacks_sent [OF p, of env tid] e by (simp add: u Let_def)
  show "set (pv_training_attendance stp) \<subseteq>
           set (pv_training_attendance (snd (post_attendees_pv env stp tid (Some as))))"
    using run_callbacks_mono [of ?run1 env tid "a_delivery env ?q"] by (simp add: u Let_def)
  show "pv_users (snd (post_attendees_pv env stp tid (Some as))) = pv_users stp"
    by (simp add: u Let_def run_callbacks_users)
  assume a: "a \<in> set as" "entry_truthy a"
    and r: "fst (resolveInternalUserId (a_cast env) (a_bind_other env) (a_plan env)
               (a_lookup_fails env a) stp a) = Inr uid"
  from a mem have "a \<in> set (a_delivery env ?q)" by simp
  from run_callbacks_records [OF this, of env ?run1 uid tid] r
  show "\<exists>row \<in> set (pv_training_attendance (snd (post_attendees_pv env stp tid (Some as)))).
           at_user_id row = uid \<and> at_training_id row = int_affinity (SqlText tid)"
    by (simp add: u Let_def)
qed

text \<open>
  For every attendee list with a truthy entry whose \<open>toString()\<close> raises (the first such
  entry being \<open>x\<close>), and every order of delivery: the only response is the 500 of Express,
  and the database ends as if the list had stopped at \<open>x\<close>, so that no entry after \<open>x\<close> is
  recorded, whatever it resolves to.
\<close>

lemma post_attendees_pv_raise:
  assumes "\<forall>a \<in> set pre. entry_truthy a \<longrightarrow> to_string a \<noteq> None"
    and "entry_truthy x" "to_string x = None"
  shows "post_attendees_pv env stp tid (Some (pre @ x # post)) =
     (let run = run_callbacks env tid (a_delivery env (filter entry_truthy pre))
                  (\<lparr>pending = int (length (filter entry_truthy pre)) + 1 + int (length post),
                    sent = [express_error], outstanding = [], run_db = stp\<rparr>)
      in (sent run, run_db run))"
proof -
  define run0 where
    "run0 = \<lparr>pending = int (length (pre @ x # post)), sent = [], outstanding = [], run_db = stp\<rparr>"
  have "pending run0 = int (length (pre @ x # post)) + int (length (outstanding run0))"
    by (simp add: run0_def)
  from for_each_attendee_raise [OF assms this]
  have r: "for_each_attendee (pre @ x # post) run0 =
      \<lparr>pending = int (length (filter entry_truthy pre)) + 1 + int (length post),
       sent = [express_error], outstanding = filter entry_truthy pre, run_db = stp\<rparr>"
    by (simp add: run0_def)
  have "post_attendees_pv env stp tid (Some (pre @ x # post)) =
      (let run1 = for_each_attendee (pre @ x # post) run0;
           run2 = run_callbacks env tid (a_delivery env (outstanding run1)) (run1\<lparr>outstanding := []\<rparr>)
       in (sent run2, run_db run2))"
    unfolding post_attendees_pv_def run0_def by simp
  then show ?thesis
    by (simp only: r Let_def) simp
qed

lemma attendees_raise:
  assumes "\<forall>a \<in> set pre. entry_truthy a \<longrightarrow> to_string a \<noteq> None"
    and "entry_truthy x" "to_string x = None"
    and "mset (a_delivery env (filter entry_truthy pre)) = mset (filter entry_truthy pre)"
  shows "fst (post_attendees_pv env stp tid (Some (pre @ x # post))) = [express_error]"
    and "snd (post_attendees_pv env stp tid (Some (pre @ x # post))) =
         snd (post_attendees_pv env stp tid (Some (pre @ [x])))"
proof -
  let ?q = "filter entry_truthy pre"
  note u = post_attendees_pv_raise [OF assms(1-3)]
  from assms(4) have len: "length (a_delivery env ?q) = length ?q"
    by (rule mset_eq_length)
  have "sent (run_callbacks env tid (a_delivery env ?q)
           \<lparr>pending = int (length ?q) + 1 + int (length post), sent = [express_error],
             outstanding = [], run_db = stp\<rparr>) = [express_error]"
    using len by (subst run_callbacks_no_send) simp_all
  then show "fst (post_attendees_pv env stp tid (Some (pre @ x # post))) = [express_error]"
    by (simp add: u Let_def)
  have "run_db (run_callbacks env tid (a_delivery env ?q)
           \<lparr>pending = int (length ?q) + 1 + int (length post), sent = [express_error],
             outstanding = [], run_db = stp\<rparr>) =
        run_db (run_callbacks env tid (a_delivery env ?q)
           \<lparr>pending = int (length ?q) + 1 + int (length ([]::entry list)), sent = [express_error],
             outstanding = [], run_db = stp\<rparr>)"
    by (rule run_callbacks_db) simp
  then show "snd (post_attendees_pv env stp tid (Some (pre @ x # post))) =
         snd (post_attendees_pv env stp tid (Some (pre @ [x])))"
    by (simp add: u [where post = post] u [where post = "[]"] Let_def)
qed

subsection \<open>server.js\<close>

lemma insert_attendees_mono: "set tbl \<subseteq> set (insert_attendees drv tid as tbl)"
proof (induction as arbitrary: tbl)
  case Nil
  then show ?case by simp
next
  case (Cons a as)
  let ?tbl = "tbl @ [\<lparr>ta_id = next_rowid (map ta_id tbl),
                ta_training_id = int_affinity (SqlText tid),
                ta_attendee_roblox_id = store_text (bind_entry drv a)\<rparr>]"
  from Cons [of ?tbl] show ?case by auto
qed

lemma insert_attendees_records:
  "a \<in> set as \<Longrightarrow>
   \<exists>row \<in> set (insert_attendees drv tid as tbl).
     ta_training_id row = int_affinity (SqlText tid) \<and>
     ta_attendee_roblox_id row = store_text (bind_entry drv a)"
proof (induction as arbitrary: tbl)
  case Nil
  then show ?case by simp
next
  case (Cons x xs)
  let ?row = "\<lparr>ta_id = next_rowid (map ta_id tbl), ta_training_id = int_affinity (SqlText tid),
               ta_attendee_roblox_id = store_text (bind_entry drv x)\<rparr>"
  show ?case
  proof (cases "a = x")
    case True
    have "?row \<in> set (insert_attendees drv tid xs (tbl @ [?row]))"
      using insert_attendees_mono [of "tbl @ [?row]" drv tid xs] by auto
    with True show ?thesis by (intro bexI [of _ ?row]) simp_all
  next
    case False
    with Cons.prems have "a \<in> set xs" by simp
    from Cons.IH [OF this, of "tbl @ [?row]"] show ?thesis by simp
  qed
qed

text \<open>
  In server.js, for an existing training, every entry of the list is recorded as it came,
  none is looked up, and the request answers with success unless finalising fails.
\<close>

lemma post_attendees_records:
  assumes "as \<noteq> []" "\<not> lookup_err"
    and "find (\<lambda>t. int_col_eq cast (t_id t) (SqlText tid)) (trainings st) = Some tRow"
  shows "a \<in> set as \<Longrightarrow>
         \<exists>row \<in> set (training_attendees
             (snd (post_attendees cast drv lookup_err finalize_err st tid (Some as)))).
           ta_training_id row = int_affinity (SqlText tid) \<and>
           ta_attendee_roblox_id row = store_text (bind_entry drv a)"
    and "\<not> finalize_err \<Longrightarrow>
         fst (post_attendees cast drv lookup_err finalize_err st tid (Some as)) =
           json [(''success'', JBool True)]"
  using assms insert_attendees_records [of a as drv tid "training_attendees st"]
  by (simp_all add: post_attendees_def Let_def)

subsection \<open>An entry that raises\<close>

text \<open>
  C8. Adding attendees succeeds for the valid entries and an entry that fails resolution
  neither aborts the whole request nor crashes it. The resolving variant at the attendee
  list \<open>[{"toString": 1}, "1001"]\<close>, member 1 holding the external id "1001": the first
  entry is truthy and its \<open>toString()\<close> raises inside \<open>resolveInternalUserId\<close>, the request
  is answered by Express with status 500, and the valid second entry is never looked up
  and never recorded. The same request without the first entry answers with success and
  records member 1.
\<close>

theorem attendees_type_error_aborts:
  "post_attendees_pv
     \<lparr>a_cast = sql_numeric, a_bind_other = (\<lambda>t. SqlText ''[object Object]''), a_plan = TermByTerm,
       a_lookup_fails = (\<lambda>a. False), a_delivery = (\<lambda>q. q), a_finalize_fails = False\<rparr>
     \<lparr>pv_users = [\<lparr>p_id = 1, p_roblox_id = Some ''1001'', p_username = Some ''x'',
                     p_display_name = Some ''X'', p_branch = None, p_rank = None,
                     p_points = 0, p_valor = 0, p_created_at = 0\<rparr>],
       pv_training_attendance = [], pv_verification_codes = []\<rparr>
     ''5'' (Some [Other None, Plain (JStr ''1001'')])
   = ([express_error],
      \<lparr>pv_users = [\<lparr>p_id = 1, p_roblox_id = Some ''1001'', p_username = Some ''x'',
                     p_display_name = Some ''X'', p_branch = None, p_rank = None,
                     p_points = 0, p_valor = 0, p_created_at = 0\<rparr>],
       pv_training_attendance = [], pv_verification_codes = []\<rparr>) \<and>
   status express_error = 500 \<and>
   post_attendees_pv
     \<lparr>a_cast = sql_numeric, a_bind_other = (\<lambda>t. SqlText ''[object Object]''), a_plan = TermByTerm,
       a_lookup_fails = (\<lambda>a. False), a_delivery = (\<lambda>q. q), a_finalize_fails = False\<rparr>
     \<lparr>pv_users = [\<lparr>p_id = 1, p_roblox_id = Some ''1001'', p_username = Some ''x'',
                     p_display_name = Some ''X'', p_branch = None, p_rank = None,
                     p_points = 0, p_valor = 0, p_created_at = 0\<rparr>],
       pv_training_attendance = [], pv_verification_codes = []\<rparr>
     ''5'' (Some [Plain (JStr ''1001'')])
   = ([json [(''success'', JBool True)]],
      \<lparr>pv_users = [\<lparr>p_id = 1, p_roblox_id = Some ''1001'', p_username = Some ''x'',
                     p_display_name = Some ''X'', p_branch = None, p_rank = None,
                     p_points = 0, p_valor = 0, p_created_at = 0\<rparr>],
       pv_training_attendance = [\<lparr>at_id = 1, at_training_id = SqlInt 5, at_user_id = 1\<rparr>],
       pv_verification_codes = []\<rparr>)"
  by (simp add: post_attendees_pv_def resolved_entry_def skip_entry_def hadError_def
      record_attendance_def resolveInternalUserId_def express_error_def eval_simps)

end
